theory Spec2Isabelle
  imports Complex_Main "HOL-Library.Sublist"
begin

section \<open>Data model\<close>

text \<open>
  The script \<^verbatim>\<open>src/utils/clean_data.py\<close> reads a CSV file into a pandas DataFrame,
  transforms the frame and writes it back. The model starts from what a DataFrame holds.

  A cell is one value of a column: a missing value (NaN, NaT or None, which pandas treats
  alike in \<^verbatim>\<open>dropna\<close>), an integer, a finite float (its value as a real number), an
  infinite float (with its sign), a text, a boolean, or a timestamp (nanoseconds since the
  epoch). Texts are lists of code points below 256.
\<close>

datatype cell =
    NA
  | IntV int
  | FloatV real
  | InfV bool
  | StrV string
  | BoolV bool
  | DatetimeV int

text \<open>The exceptions of Python and pandas that the script can meet.\<close>

datatype error =
    FileNotFoundError string
  | ParserError string
  | KeyError string
  | ValueError string
  | IntCastingNaNError
  | OverflowError
  | TypeError string
  | IsADirectoryError string
  | NotADirectoryError string
  | FileExistsError string
  | OSError string

text \<open>
  A row maps column labels to cells; a frame has its column labels in order and its rows
  in order, each with its index label (\<^verbatim>\<open>read_csv\<close> numbers the rows 0, 1, 2, ...; a
  filter keeps the labels of the rows it keeps).
\<close>

type_synonym row = "string \<rightharpoonup> cell"

record dataframe =
  columns :: "string list"
  rows :: "(nat \<times> row) list"

text \<open>
  The library functions whose results depend on parsing text the script does not control
  are parameters of the model: the CSV reader (from the text of the file), the date parser
  \<^verbatim>\<open>pd.to_datetime(s, errors='coerce')\<close> without a format, the number parser
  \<^verbatim>\<open>pd.to_numeric(s, errors='coerce')\<close>, and the CSV writer
  \<^verbatim>\<open>to_csv(index=False)\<close> (to the text of the file). The two parsers work on a whole
  column (pandas infers a date format and a numeric type from the column) and give a
  missing value where an entry does not parse. The date parser reads the clock (it turns
  the texts \<^verbatim>\<open>now\<close> and \<^verbatim>\<open>today\<close> into the current time), so its first argument
  is the time of the call, in nanoseconds since the epoch. The last parameter is the
  integer that the platform gives when a float outside the 64-bit range is cast to an
  integer, which numpy does not specify.
\<close>

record pandas =
  read_csv_text :: "string \<Rightarrow> error + dataframe"
  to_datetime :: "int \<Rightarrow> cell list \<Rightarrow> error + cell list"
  to_numeric :: "cell list \<Rightarrow> error + cell list"
  to_csv_text :: "dataframe \<Rightarrow> string"
  float_cast_out_of_range :: "real \<Rightarrow> int"

text \<open>Sequencing of steps that may raise: the first exception ends the run.\<close>

definition and_then :: "error + 'a \<Rightarrow> ('a \<Rightarrow> error + 'b) \<Rightarrow> error + 'b" where
  "and_then m f = (case m of Inl e \<Rightarrow> Inl e | Inr x \<Rightarrow> f x)"

section \<open>DataFrame operations used by the script\<close>

definition cell_at :: "row \<Rightarrow> string \<Rightarrow> cell" where
  "cell_at r c = (case r c of None \<Rightarrow> NA | Some v \<Rightarrow> v)"

text \<open>\<^verbatim>\<open>df[cols]\<close>: the listed columns in the listed order; KeyError when one is absent.\<close>

definition getitem_cols :: "string list \<Rightarrow> dataframe \<Rightarrow> error + dataframe" where
  "getitem_cols cs df =
     (case filter (\<lambda>c. c \<notin> set (columns df)) cs of
        [] \<Rightarrow> Inr \<lparr>columns = cs, rows = map (\<lambda>(l, r). (l, r |` set cs)) (rows df)\<rparr>
      | m # ms \<Rightarrow> Inl (KeyError m))"

text \<open>\<^verbatim>\<open>df[c]\<close>: the cells of one column, top to bottom; KeyError when it is absent.\<close>

definition column_of :: "string \<Rightarrow> dataframe \<Rightarrow> cell list" where
  "column_of c df = map (\<lambda>(l, r). cell_at r c) (rows df)"

definition getitem :: "string \<Rightarrow> dataframe \<Rightarrow> error + cell list" where
  "getitem c df = (if c \<in> set (columns df) then Inr (column_of c df) else Inl (KeyError c))"

text \<open>
  \<^verbatim>\<open>df[c] = values\<close>: replaces the column, or appends it as the last column when the
  label is new; ValueError when the number of values is not the number of rows.
\<close>

definition setitem :: "string \<Rightarrow> cell list \<Rightarrow> dataframe \<Rightarrow> error + dataframe" where
  "setitem c vs df =
     (if length vs \<noteq> length (rows df)
      then Inl (ValueError ''Length of values does not match length of index'')
      else Inr \<lparr>columns = (if c \<in> set (columns df) then columns df else columns df @ [c]),
                rows = map2 (\<lambda>(l, r) v. (l, r(c \<mapsto> v))) (rows df) vs\<rparr>)"

text \<open>\<^verbatim>\<open>df.drop(columns=cs)\<close>: KeyError when a label is absent.\<close>

definition drop_columns :: "string list \<Rightarrow> dataframe \<Rightarrow> error + dataframe" where
  "drop_columns cs df =
     (case filter (\<lambda>c. c \<notin> set (columns df)) cs of
        [] \<Rightarrow> Inr \<lparr>columns = filter (\<lambda>c. c \<notin> set cs) (columns df),
                  rows = map (\<lambda>(l, r). (l, r |` (- set cs))) (rows df)\<rparr>
      | m # ms \<Rightarrow> Inl (KeyError m))"

definition isna :: "cell \<Rightarrow> bool" where
  "isna c = (c = NA)"

text \<open>\<^verbatim>\<open>df.dropna(subset=cs)\<close>: keeps the rows with no missing value in the listed columns.\<close>

definition dropna :: "string list \<Rightarrow> dataframe \<Rightarrow> error + dataframe" where
  "dropna cs df =
     (case filter (\<lambda>c. c \<notin> set (columns df)) cs of
        [] \<Rightarrow> Inr (df\<lparr>rows := filter (\<lambda>(l, r). list_all (\<lambda>c. \<not> isna (cell_at r c)) cs) (rows df)\<rparr>)
      | m # ms \<Rightarrow> Inl (KeyError m))"

text \<open>
  \<^verbatim>\<open>series != 0\<close>, cell by cell. An integer or a float is compared by value, a boolean as
  0 or 1; a missing value, an infinity, a text and a timestamp are different from 0.
\<close>

definition ne_zero :: "cell \<Rightarrow> bool" where
  "ne_zero c = (case c of IntV i \<Rightarrow> i \<noteq> 0 | FloatV x \<Rightarrow> x \<noteq> 0 | BoolV b \<Rightarrow> b | _ \<Rightarrow> True)"

text \<open>\<^verbatim>\<open>df[mask]\<close>: keeps the rows where the boolean mask holds.\<close>

definition getitem_mask :: "bool list \<Rightarrow> dataframe \<Rightarrow> error + dataframe" where
  "getitem_mask m df =
     (if length m \<noteq> length (rows df)
      then Inl (ValueError ''Item wrong length'')
      else Inr (df\<lparr>rows := map snd (filter fst (zip m (rows df)))\<rparr>))"

subsection \<open>Parsing a time in the format \<^verbatim>\<open>%H:%M\<close>\<close>

definition digit_of :: "char \<Rightarrow> nat option" where
  "digit_of c = map_of
     [(CHR ''0'', 0), (CHR ''1'', 1), (CHR ''2'', 2), (CHR ''3'', 3), (CHR ''4'', 4),
      (CHR ''5'', 5), (CHR ''6'', 6), (CHR ''7'', 7), (CHR ''8'', 8), (CHR ''9'', 9)] c"

text \<open>
  The directive \<^verbatim>\<open>%H\<close> accepts \<^verbatim>\<open>2[0-3]\<close>, \<^verbatim>\<open>[0-1]\d\<close> or \<^verbatim>\<open>\d\<close>, and
  \<^verbatim>\<open>%M\<close> accepts \<^verbatim>\<open>[0-5]\d\<close> or \<^verbatim>\<open>\d\<close>.
\<close>

definition hour_field :: "string \<Rightarrow> nat option" where
  "hour_field s =
     (case s of
        [a] \<Rightarrow> digit_of a
      | [a, b] \<Rightarrow>
          (case (digit_of a, digit_of b) of
             (Some x, Some y) \<Rightarrow>
               (if x = 2 \<and> y \<le> 3 then Some (10 * x + y)
                else if x \<le> 1 then Some (10 * x + y)
                else None)
           | _ \<Rightarrow> None)
      | _ \<Rightarrow> None)"

definition minute_field :: "string \<Rightarrow> nat option" where
  "minute_field s =
     (case s of
        [a] \<Rightarrow> digit_of a
      | [a, b] \<Rightarrow>
          (case (digit_of a, digit_of b) of
             (Some x, Some y) \<Rightarrow> (if x \<le> 5 then Some (10 * x + y) else None)
           | _ \<Rightarrow> None)
      | _ \<Rightarrow> None)"

text \<open>
  The whole text must be an hour field, a colon and a minute field; the result is the
  pair of hour and minute (the date part, 1900-01-01, is not used by the script).
\<close>

definition strptime_HM :: "string \<Rightarrow> (nat \<times> nat) option" where
  "strptime_HM s =
     (let h = takeWhile (\<lambda>c. c \<noteq> CHR '':'') s; rest = dropWhile (\<lambda>c. c \<noteq> CHR '':'') s
      in case rest of
           [] \<Rightarrow> None
         | colon # m \<Rightarrow>
             (case (hour_field h, minute_field m) of
                (Some hh, Some mm) \<Rightarrow> Some (hh, mm)
              | _ \<Rightarrow> None))"

text \<open>
  \<^verbatim>\<open>pd.to_datetime(s, format='%H:%M', errors='coerce')\<close>: a text is parsed; a missing
  value stays missing; any other value is parsed from its printed form, which has no
  colon, so it does not parse. What does not parse is missing (\<open>None\<close>).
\<close>

definition to_datetime_HM_cell :: "cell \<Rightarrow> (nat \<times> nat) option" where
  "to_datetime_HM_cell c = (case c of StrV s \<Rightarrow> strptime_HM s | _ \<Rightarrow> None)"

definition to_datetime_HM :: "cell list \<Rightarrow> (nat \<times> nat) option list" where
  "to_datetime_HM s = map to_datetime_HM_cell s"

text \<open>
  \<^verbatim>\<open>.dt.hour\<close>: the hour of each time. With a missing time in the column the result is
  a float column (missing where the time is missing), otherwise an integer column.
\<close>

definition dt_hour :: "(nat \<times> nat) option list \<Rightarrow> cell list" where
  "dt_hour ts =
     (if None \<in> set ts
      then map (\<lambda>t. case t of None \<Rightarrow> NA | Some (h, m) \<Rightarrow> FloatV (real h)) ts
      else map (\<lambda>t. case t of None \<Rightarrow> NA | Some (h, m) \<Rightarrow> IntV (int h)) ts)"

subsection \<open>Casting a column to integers\<close>

text \<open>
  Python's \<^verbatim>\<open>int(text)\<close> in base 10: surrounding whitespace is ignored, then an optional
  sign, then decimal digits, where single underscores may separate digits. The whitespace
  it ignores is the ASCII whitespace (tab, line feed, vertical tab, form feed, carriage
  return, space) and, of the code points from 128 to 255, the next-line control and the
  no-break space.
\<close>

definition is_space :: "char \<Rightarrow> bool" where
  "is_space c = (c \<in> set [CHR 0x09, CHR 0x0A, CHR 0x0B, CHR 0x0C, CHR 0x0D, CHR 0x20, CHR 0x85,
                           CHR 0xA0])"

definition strip :: "string \<Rightarrow> string" where
  "strip s = rev (dropWhile is_space (rev (dropWhile is_space s)))"

fun digits_value :: "nat \<Rightarrow> string \<Rightarrow> nat option" where
  "digits_value acc [] = Some acc"
| "digits_value acc (c # cs) =
     (case digit_of c of
        Some d \<Rightarrow> digits_value (10 * acc + d) cs
      | None \<Rightarrow>
          (if c = CHR ''_'' then
             (case cs of
                [] \<Rightarrow> None
              | c' # cs' \<Rightarrow>
                  (case digit_of c' of
                     Some d' \<Rightarrow> digits_value (10 * acc + d') cs'
                   | None \<Rightarrow> None))
           else None))"

definition unsigned_literal :: "string \<Rightarrow> nat option" where
  "unsigned_literal s =
     (case s of
        [] \<Rightarrow> None
      | c # cs \<Rightarrow> (case digit_of c of None \<Rightarrow> None | Some d \<Rightarrow> digits_value d cs))"

definition python_int :: "string \<Rightarrow> int option" where
  "python_int s =
     (case strip s of
        [] \<Rightarrow> None
      | c # cs \<Rightarrow>
          (if c = CHR ''-'' then map_option (\<lambda>n. - int n) (unsigned_literal cs)
           else if c = CHR ''+'' then map_option int (unsigned_literal cs)
           else map_option int (unsigned_literal (c # cs))))"

text \<open>
  \<^verbatim>\<open>series.astype(int)\<close> on one cell, to a signed 64-bit integer.
  \<^item> An integer of a signed 64-bit column stays; an integer from \<open>2^63\<close> below \<open>2^64\<close>
    (an unsigned 64-bit column) wraps around; any other integer is a Python integer of an
    object column and does not fit.
  \<^item> A finite float is truncated toward zero; outside the 64-bit range the result is the
    integer the platform gives.
  \<^item> A boolean becomes 0 or 1; a timestamp gives its nanoseconds.
  \<^item> A text goes through \<^verbatim>\<open>int(text)\<close> and must fit 64 bits.
  \<^item> A missing value and an infinity raise.
\<close>

definition trunc_toward_zero :: "real \<Rightarrow> int" where
  "trunc_toward_zero x = (if 0 \<le> x then \<lfloor>x\<rfloor> else \<lceil>x\<rceil>)"

definition wrap_int64 :: "int \<Rightarrow> int" where
  "wrap_int64 i = (i + 2 ^ 63) mod 2 ^ 64 - 2 ^ 63"

definition astype_int_cell :: "pandas \<Rightarrow> cell \<Rightarrow> error + cell" where
  "astype_int_cell L c =
     (case c of
        NA \<Rightarrow> Inl IntCastingNaNError
      | IntV i \<Rightarrow>
          (if - (2 ^ 63) \<le> i \<and> i < 2 ^ 64 then Inr (IntV (wrap_int64 i)) else Inl OverflowError)
      | FloatV x \<Rightarrow>
          (if - (2 ^ 63) \<le> trunc_toward_zero x \<and> trunc_toward_zero x < 2 ^ 63
           then Inr (IntV (trunc_toward_zero x))
           else Inr (IntV (float_cast_out_of_range L x)))
      | InfV s \<Rightarrow> Inl IntCastingNaNError
      | StrV s \<Rightarrow>
          (case python_int s of
             None \<Rightarrow>
               Inl (ValueError (''invalid literal for int() with base 10: '' @ [CHR 0x27] @ s @ [CHR 0x27]))
           | Some i \<Rightarrow>
               (if - (2 ^ 63) \<le> i \<and> i < 2 ^ 63 then Inr (IntV i) else Inl OverflowError))
      | BoolV b \<Rightarrow> Inr (IntV (if b then 1 else 0))
      | DatetimeV t \<Rightarrow> Inr (IntV (wrap_int64 t)))"

text \<open>The cast of a column raises at the first cell that cannot be cast.\<close>

fun astype_int :: "pandas \<Rightarrow> cell list \<Rightarrow> error + cell list" where
  "astype_int L [] = Inr []"
| "astype_int L (c # cs) =
     (case astype_int_cell L c of
        Inl e \<Rightarrow> Inl e
      | Inr v \<Rightarrow> (case astype_int L cs of Inl e \<Rightarrow> Inl e | Inr vs \<Rightarrow> Inr (v # vs)))"

section \<open>The cleaning of the table\<close>

definition COLUMNS_TO_KEEP :: "string list" where
  "COLUMNS_TO_KEEP =
     [''Num_Acc'', ''date'', ''lat'', ''long'', ''age'', ''grav'', ''sexe'', ''atm'', ''lum'',
      ''dep'', ''hrmn'']"

text \<open>
  Steps 2 and 3 of \<^verbatim>\<open>clean_data\<close>: the projection on \<open>COLUMNS_TO_KEEP\<close>, the coercion
  of \<^verbatim>\<open>date\<close>, \<^verbatim>\<open>lat\<close> and \<^verbatim>\<open>long\<close>, the new column \<^verbatim>\<open>hour\<close> and the removal of
  \<^verbatim>\<open>hrmn\<close>. The column \<^verbatim>\<open>age\<close> is not coerced.
\<close>

definition convert_types :: "pandas \<Rightarrow> int \<Rightarrow> dataframe \<Rightarrow> error + dataframe" where
  "convert_types L now df =
     and_then (getitem_cols COLUMNS_TO_KEEP df) (\<lambda>df0.
     and_then (getitem ''date'' df0) (\<lambda>s_date.
     and_then (to_datetime L now s_date) (\<lambda>dates.
     and_then (setitem ''date'' dates df0) (\<lambda>df1.
     and_then (getitem ''lat'' df1) (\<lambda>s_lat.
     and_then (to_numeric L s_lat) (\<lambda>lats.
     and_then (setitem ''lat'' lats df1) (\<lambda>df2.
     and_then (getitem ''long'' df2) (\<lambda>s_long.
     and_then (to_numeric L s_long) (\<lambda>longs.
     and_then (setitem ''long'' longs df2) (\<lambda>df3.
     and_then (getitem ''hrmn'' df3) (\<lambda>s_hrmn.
     and_then (setitem ''hour'' (dt_hour (to_datetime_HM s_hrmn)) df3) (\<lambda>df4.
     drop_columns [''hrmn''] df4))))))))))))"

text \<open>
  Step 4: the rows with a missing critical value are dropped, then the rows whose
  latitude is 0. The result is the frame and the number of rows dropped, which the script
  prints.
\<close>

definition drop_rows :: "dataframe \<Rightarrow> error + dataframe \<times> nat" where
  "drop_rows df =
     (let initial_rows = length (rows df) in
      and_then (dropna [''date'', ''lat'', ''long'', ''age'', ''hour''] df) (\<lambda>df1.
      and_then (getitem ''lat'' df1) (\<lambda>s_lat.
      and_then (getitem_mask (map ne_zero s_lat) df1) (\<lambda>df2.
      Inr (df2, initial_rows - length (rows df2))))))"

text \<open>Step 5: \<^verbatim>\<open>age\<close> and \<^verbatim>\<open>hour\<close> are cast to integers.\<close>

definition finalize_types :: "pandas \<Rightarrow> dataframe \<Rightarrow> error + dataframe" where
  "finalize_types L df =
     and_then (getitem ''age'' df) (\<lambda>s_age.
     and_then (astype_int L s_age) (\<lambda>ages.
     and_then (setitem ''age'' ages df) (\<lambda>df1.
     and_then (getitem ''hour'' df1) (\<lambda>s_hour.
     and_then (astype_int L s_hour) (\<lambda>hours.
     setitem ''hour'' hours df1)))))"

text \<open>
  Steps 2 to 5 on the frame that was read, at the time \<open>now\<close>: the cleaned frame and the
  number dropped.
\<close>

definition clean_table :: "pandas \<Rightarrow> int \<Rightarrow> dataframe \<Rightarrow> error + dataframe \<times> nat" where
  "clean_table L now df =
     and_then (convert_types L now df) (\<lambda>df1.
     and_then (drop_rows df1) (\<lambda>(df2, dropped).
     and_then (finalize_types L df2) (\<lambda>df3.
     Inr (df3, dropped))))"

section \<open>The run on a file system\<close>
















text \<open>The decimal form of a number and the text of an exception, as f-strings print them.\<close>

fun str_nat :: "nat \<Rightarrow> string" where
  "str_nat n =
     (if n < 10 then [char_of (48 + n)]
      else str_nat (n div 10) @ [char_of (48 + n mod 10)])"

definition str_int :: "int \<Rightarrow> string" where
  "str_int i = (if i < 0 then ''-'' @ str_nat (nat (- i)) else str_nat (nat i))"




section \<open>Vocabulary of the properties\<close>

text \<open>The columns of the cleaned table, in order.\<close>

definition CLEANED_COLUMNS :: "string list" where
  "CLEANED_COLUMNS =
     [''Num_Acc'', ''date'', ''lat'', ''long'', ''age'', ''grav'', ''sexe'', ''atm'', ''lum'',
      ''dep'', ''hour'']"

text \<open>A row of the converted frame has a missing critical value.\<close>

definition has_missing :: "nat \<times> row \<Rightarrow> bool" where
  "has_missing x =
     (isna (cell_at (snd x) ''date'') \<or> isna (cell_at (snd x) ''lat'') \<or> isna (cell_at (snd x) ''long'')
      \<or> isna (cell_at (snd x) ''age'') \<or> isna (cell_at (snd x) ''hour''))"

text \<open>A row of the converted frame has latitude 0.\<close>

definition zero_lat :: "nat \<times> row \<Rightarrow> bool" where
  "zero_lat x = (\<not> ne_zero (cell_at (snd x) ''lat''))"

text \<open>A row of the converted frame survives both drops.\<close>

definition survives :: "nat \<times> row \<Rightarrow> bool" where
  "survives x = (\<not> has_missing x \<and> \<not> zero_lat x)"

text \<open>The value of a cell after a cast to integer that succeeds.\<close>

definition cast_of :: "pandas \<Rightarrow> cell \<Rightarrow> cell" where
  "cast_of L c = (case astype_int_cell L c of Inl e \<Rightarrow> NA | Inr v \<Rightarrow> v)"

definition finalized :: "pandas \<Rightarrow> nat \<times> row \<Rightarrow> nat \<times> row" where
  "finalized L x =
     (fst x, (snd x)(''age'' \<mapsto> cast_of L (cell_at (snd x) ''age''),
                     ''hour'' \<mapsto> cast_of L (cell_at (snd x) ''hour'')))"

text \<open>
  The row at position \<open>i\<close> after steps 2 and 3, from the raw row and the coerced values
  of its date, latitude, longitude and hour.
\<close>

definition converted_row :: "nat \<times> row \<Rightarrow> cell \<Rightarrow> cell \<Rightarrow> cell \<Rightarrow> cell \<Rightarrow> nat \<times> row" where
  "converted_row x d la lo h =
     (fst x, ((snd x |` set COLUMNS_TO_KEEP)(''date'' \<mapsto> d, ''lat'' \<mapsto> la, ''long'' \<mapsto> lo, ''hour'' \<mapsto> h))
               |` (- {''hrmn''}))"

definition hours_of :: "dataframe \<Rightarrow> cell list" where
  "hours_of df = dt_hour (to_datetime_HM (column_of ''hrmn'' df))"

definition converted :: "dataframe \<Rightarrow> cell list \<Rightarrow> cell list \<Rightarrow> cell list \<Rightarrow> dataframe" where
  "converted df dates lats longs =
     \<lparr>columns = CLEANED_COLUMNS,
      rows = map (\<lambda>i. converted_row (rows df ! i) (dates ! i) (lats ! i) (longs ! i) (hours_of df ! i))
               [0..<length (rows df)]\<rparr>"

text \<open>
  Two facts about a frame as \<^verbatim>\<open>read_csv\<close> gives it: every row has a cell for each column
  and for nothing else, and the column labels are distinct; the index labels are distinct.
\<close>

definition well_formed :: "dataframe \<Rightarrow> bool" where
  "well_formed df =
     (distinct (columns df) \<and> list_all (\<lambda>x. dom (snd x) = set (columns df)) (rows df))"

definition distinct_index :: "dataframe \<Rightarrow> bool" where
  "distinct_index df = distinct (map fst (rows df))"

text \<open>
  A fact about the two library parsers: where the column given has a missing value, the
  column returned has a missing value (NaN stays NaN, and becomes NaT for a date).
\<close>

definition keeps_missing :: "(cell list \<Rightarrow> error + cell list) \<Rightarrow> bool" where
  "keeps_missing f =
     (\<forall>s t i. f s = Inr t \<longrightarrow> i < length s \<longrightarrow> i < length t \<longrightarrow> s ! i = NA \<longrightarrow> t ! i = NA)"

section \<open>Sample data\<close>

text \<open>
  A stand-in for the library parsers on the values of the examples: the date
  \<^verbatim>\<open>2021-05-01\<close> is a timestamp, the text \<^verbatim>\<open>today\<close> is the time of the call, and
  every other value is not a date; numbers stay as they are, the listed texts are numbers
  and every other value is not a number.
\<close>

definition sample_date :: "int \<Rightarrow> cell \<Rightarrow> cell" where
  "sample_date now c =
     (if c = StrV ''2021-05-01'' then DatetimeV 1619827200000000000
      else if c = StrV ''today'' then DatetimeV now
      else NA)"

definition sample_to_datetime :: "int \<Rightarrow> cell list \<Rightarrow> error + cell list" where
  "sample_to_datetime now s = Inr (map (sample_date now) s)"

definition sample_number :: "cell \<Rightarrow> cell" where
  "sample_number c =
     (case c of
        IntV i \<Rightarrow> IntV i
      | FloatV x \<Rightarrow> FloatV x
      | StrV t \<Rightarrow>
          (if t = ''48.85'' then FloatV 48.85
           else if t = ''2.35'' then FloatV 2.35
           else if t = ''0'' then FloatV 0
           else NA)
      | _ \<Rightarrow> NA)"

definition sample_to_numeric :: "cell list \<Rightarrow> error + cell list" where
  "sample_to_numeric s = Inr (map sample_number s)"

text \<open>
  The row of the example in the specification, with the types \<^verbatim>\<open>read_csv\<close> gives its
  columns, and variants of it.
\<close>

definition sample_row :: row where
  "sample_row =
     [''Num_Acc'' \<mapsto> IntV 1, ''date'' \<mapsto> StrV ''2021-05-01'', ''lat'' \<mapsto> FloatV 48.85,
      ''long'' \<mapsto> FloatV 2.35, ''age'' \<mapsto> IntV 34, ''grav'' \<mapsto> IntV 3, ''sexe'' \<mapsto> IntV 1,
      ''atm'' \<mapsto> IntV 1, ''lum'' \<mapsto> IntV 1, ''dep'' \<mapsto> IntV 75, ''hrmn'' \<mapsto> StrV ''14:30'',
      ''com'' \<mapsto> IntV 75101]"

definition sample_columns :: "string list" where
  "sample_columns =
     [''Num_Acc'', ''date'', ''com'', ''lat'', ''long'', ''age'', ''grav'', ''sexe'', ''atm'',
      ''lum'', ''dep'', ''hrmn'']"

definition sample_frame :: "row list \<Rightarrow> dataframe" where
  "sample_frame rs = \<lparr>columns = sample_columns, rows = zip [0..<length rs] rs\<rparr>"

text \<open>
  A table of four rows: the row of the example, the same row with a time that does not
  parse, with latitude 0, and with longitude 0.
\<close>

definition sample_table :: dataframe where
  "sample_table =
     sample_frame
       [sample_row,
        sample_row(''hrmn'' \<mapsto> StrV ''bad''),
        sample_row(''lat'' \<mapsto> FloatV 0),
        sample_row(''long'' \<mapsto> FloatV 0)]"

definition sample_csv :: string where
  "sample_csv = ''Num_Acc,date,com,lat,long,age,grav,sexe,atm,lum,dep,hrmn'' @ [CHR 0x0A]
     @ ''1,2021-05-01,75101,48.85,2.35,34,3,1,1,1,75,14:30'' @ [CHR 0x0A]
     @ ''1,2021-05-01,75101,48.85,2.35,34,3,1,1,1,75,bad'' @ [CHR 0x0A]
     @ ''1,2021-05-01,75101,0.0,2.35,34,3,1,1,1,75,14:30'' @ [CHR 0x0A]
     @ ''1,2021-05-01,75101,48.85,0.0,34,3,1,1,1,75,14:30'' @ [CHR 0x0A]"

text \<open>A table whose only row has the date \<^verbatim>\<open>today\<close>, and its file.\<close>

definition sample_today :: dataframe where
  "sample_today = sample_frame [sample_row(''date'' \<mapsto> StrV ''today'')]"

definition sample_csv_today :: string where
  "sample_csv_today = ''Num_Acc,date,com,lat,long,age,grav,sexe,atm,lum,dep,hrmn'' @ [CHR 0x0A]
     @ ''1,today,75101,48.85,2.35,34,3,1,1,1,75,14:30'' @ [CHR 0x0A]"

text \<open>
  A stand-in for the writer: a line of the column labels and a line for each row, every
  entry followed by a comma; a timestamp is written as its nanoseconds and a float as its
  hundredths.
\<close>

definition sample_cell_text :: "cell \<Rightarrow> string" where
  "sample_cell_text c =
     (case c of
        NA \<Rightarrow> []
      | IntV i \<Rightarrow> str_int i
      | FloatV x \<Rightarrow> str_int (trunc_toward_zero (x * 100)) @ ''e-2''
      | InfV s \<Rightarrow> (if s then ''inf'' else ''-inf'')
      | StrV t \<Rightarrow> t
      | BoolV b \<Rightarrow> (if b then ''True'' else ''False'')
      | DatetimeV t \<Rightarrow> str_int t)"

definition sample_to_csv_text :: "dataframe \<Rightarrow> string" where
  "sample_to_csv_text df =
     concat (map (\<lambda>c. c @ '','') (columns df)) @ [CHR 0x0A]
     @ concat (map (\<lambda>x. concat (map (\<lambda>c. sample_cell_text (cell_at (snd x) c) @ '','') (columns df))
                         @ [CHR 0x0A])
                (rows df))"

definition sample_pandas :: pandas where
  "sample_pandas =
     \<lparr>read_csv_text =
        (\<lambda>content. if content = sample_csv then Inr sample_table
                    else if content = sample_csv_today then Inr sample_today
                    else Inl (ParserError ''Error tokenizing data'')),
      to_datetime = sample_to_datetime,
      to_numeric = sample_to_numeric,
      to_csv_text = sample_to_csv_text,
      float_cast_out_of_range = (\<lambda>x. - (2 ^ 63))\<rparr>"

text \<open>Two times of a call: the first of May 2021 and the day after, at midnight.\<close>

definition sample_now :: int where
  "sample_now = 1619827200000000000"


text \<open>The four rows of the sample table after steps 2 and 3, and the cleaned table.\<close>

definition sample_kept_0 :: "nat \<times> row" where
  "sample_kept_0 =
     converted_row (0, sample_row) (DatetimeV 1619827200000000000) (FloatV 48.85) (FloatV 2.35)
       (FloatV 14)"

definition sample_dropped_1 :: "nat \<times> row" where
  "sample_dropped_1 =
     converted_row (1, sample_row(''hrmn'' \<mapsto> StrV ''bad'')) (DatetimeV 1619827200000000000)
       (FloatV 48.85) (FloatV 2.35) NA"

definition sample_dropped_2 :: "nat \<times> row" where
  "sample_dropped_2 =
     converted_row (2, sample_row(''lat'' \<mapsto> FloatV 0)) (DatetimeV 1619827200000000000)
       (FloatV 0) (FloatV 2.35) (FloatV 14)"

definition sample_kept_3 :: "nat \<times> row" where
  "sample_kept_3 =
     converted_row (3, sample_row(''long'' \<mapsto> FloatV 0)) (DatetimeV 1619827200000000000)
       (FloatV 48.85) (FloatV 0) (FloatV 14)"

definition sample_cleaned :: dataframe where
  "sample_cleaned =
     \<lparr>columns = CLEANED_COLUMNS, rows = [finalized sample_pandas sample_kept_0, finalized sample_pandas sample_kept_3]\<rparr>"

text \<open>
  A table whose column \<^verbatim>\<open>age\<close> holds a text that is not a number, so that
  \<^verbatim>\<open>read_csv\<close> gives the whole column as texts; the other fields are those of the
  example.
\<close>

definition sample_bad_age :: dataframe where
  "sample_bad_age =
     sample_frame [sample_row(''age'' \<mapsto> StrV ''34''), sample_row(''age'' \<mapsto> StrV ''abc'')]"

text \<open>
  A table whose column \<^verbatim>\<open>age\<close> is a float column with an infinity: the first row is
  the row of the example, with age 34.
\<close>

definition sample_inf_age :: dataframe where
  "sample_inf_age =
     sample_frame [sample_row(''age'' \<mapsto> FloatV 34), sample_row(''age'' \<mapsto> InfV True)]"






section \<open>Properties of the operations\<close>

lemma and_then_Inr_iff: "and_then m f = Inr y \<longleftrightarrow> (\<exists>x. m = Inr x \<and> f x = Inr y)"
  by (cases m) (simp_all add: and_then_def)

lemma and_then_Inr [simp]: "and_then (Inr x) f = f x"
  by (simp add: and_then_def)

lemma and_then_Inl [simp]: "and_then (Inl e) f = Inl e"
  by (simp add: and_then_def)

lemma missing_cols_Nil: "filter (\<lambda>c. c \<notin> set cols) cs = [] \<longleftrightarrow> set cs \<subseteq> set cols"
  by (auto simp: filter_empty_conv)

lemma getitem_cols_Inr_iff:
  "getitem_cols cs df = Inr d \<longleftrightarrow>
     set cs \<subseteq> set (columns df) \<and> d = \<lparr>columns = cs, rows = map (\<lambda>(l, r). (l, r |` set cs)) (rows df)\<rparr>"
  by (auto simp: getitem_cols_def missing_cols_Nil[symmetric] split: list.splits)

lemma getitem_Inr_iff: "getitem c df = Inr s \<longleftrightarrow> c \<in> set (columns df) \<and> s = column_of c df"
  by (auto simp: getitem_def)

lemma setitem_Inr_iff:
  "setitem c vs df = Inr d \<longleftrightarrow>
     length vs = length (rows df) \<and>
     d = \<lparr>columns = (if c \<in> set (columns df) then columns df else columns df @ [c]),
          rows = map2 (\<lambda>(l, r) v. (l, r(c \<mapsto> v))) (rows df) vs\<rparr>"
  by (auto simp: setitem_def)

lemma drop_columns_Inr_iff:
  "drop_columns cs df = Inr d \<longleftrightarrow>
     set cs \<subseteq> set (columns df) \<and>
     d = \<lparr>columns = filter (\<lambda>c. c \<notin> set cs) (columns df),
          rows = map (\<lambda>(l, r). (l, r |` (- set cs))) (rows df)\<rparr>"
  by (auto simp: drop_columns_def missing_cols_Nil[symmetric] split: list.splits)

lemma dropna_Inr_iff:
  "dropna cs df = Inr d \<longleftrightarrow>
     set cs \<subseteq> set (columns df) \<and>
     d = df\<lparr>rows := filter (\<lambda>(l, r). list_all (\<lambda>c. \<not> isna (cell_at r c)) cs) (rows df)\<rparr>"
  by (auto simp: dropna_def missing_cols_Nil[symmetric] split: list.splits)

lemma mask_filter: "map snd (filter fst (zip (map p xs) xs)) = filter p xs"
  by (induction xs) simp_all

lemma length_rows_setitem: "setitem c vs df = Inr d \<Longrightarrow> length (rows d) = length (rows df)"
  by (auto simp: setitem_Inr_iff)

lemma rows_setitem_nth:
  "setitem c vs df = Inr d \<Longrightarrow> i < length (rows df) \<Longrightarrow>
     rows d ! i = (fst (rows df ! i), (snd (rows df ! i))(c \<mapsto> vs ! i))"
  by (auto simp: setitem_Inr_iff split_def)

lemma columns_setitem:
  "setitem c vs df = Inr d \<Longrightarrow>
     columns d = (if c \<in> set (columns df) then columns df else columns df @ [c])"
  by (auto simp: setitem_Inr_iff)

lemma column_of_nth:
  "i < length (rows df) \<Longrightarrow> column_of c df ! i = cell_at (snd (rows df ! i)) c"
  by (simp add: column_of_def split_def)

lemma length_column_of [simp]: "length (column_of c df) = length (rows df)"
  by (simp add: column_of_def)

lemma column_of_setitem:
  assumes "setitem c vs df = Inr d"
  shows "column_of c' d = (if c' = c then vs else column_of c' df)"
proof (rule nth_equalityI)
  show "length (column_of c' d) = length (if c' = c then vs else column_of c' df)"
    using assms by (auto simp: setitem_Inr_iff)
next
  fix i assume "i < length (column_of c' d)"
  then have i: "i < length (rows df)"
    using assms by (simp add: length_rows_setitem)
  then show "column_of c' d ! i = (if c' = c then vs else column_of c' df) ! i"
    using assms rows_setitem_nth[OF assms i] length_rows_setitem[OF assms]
    by (simp add: column_of_nth cell_at_def)
qed

lemma column_of_project:
  assumes "getitem_cols cs df = Inr d" and "c \<in> set cs"
  shows "column_of c d = column_of c df"
  using assms by (auto simp: getitem_cols_Inr_iff column_of_def cell_at_def)

lemma keep_simps:
  "''date'' \<in> set COLUMNS_TO_KEEP" "''lat'' \<in> set COLUMNS_TO_KEEP" "''long'' \<in> set COLUMNS_TO_KEEP"
  "''hrmn'' \<in> set COLUMNS_TO_KEEP" "''age'' \<in> set COLUMNS_TO_KEEP" "''hour'' \<notin> set COLUMNS_TO_KEEP"
  by (simp_all add: COLUMNS_TO_KEEP_def)

lemma length_dt_hour [simp]: "length (dt_hour ts) = length ts"
  by (simp add: dt_hour_def)

lemma length_hours_of [simp]: "length (hours_of df) = length (rows df)"
  by (simp add: hours_of_def to_datetime_HM_def)

lemma convert_types_InrD:
  assumes "convert_types L now df = Inr d"
  shows "\<exists>dates lats longs.
           set COLUMNS_TO_KEEP \<subseteq> set (columns df) \<and>
           to_datetime L now (column_of ''date'' df) = Inr dates \<and> length dates = length (rows df) \<and>
           to_numeric L (column_of ''lat'' df) = Inr lats \<and> length lats = length (rows df) \<and>
           to_numeric L (column_of ''long'' df) = Inr longs \<and> length longs = length (rows df) \<and>
           d = converted df dates lats longs"
proof -
  from assms obtain df0 s_date dates df1 s_lat lats df2 s_long longs df3 s_hrmn df4 where
    p: "getitem_cols COLUMNS_TO_KEEP df = Inr df0"
    and g1: "getitem ''date'' df0 = Inr s_date" and t1: "to_datetime L now s_date = Inr dates"
    and s1: "setitem ''date'' dates df0 = Inr df1"
    and g2: "getitem ''lat'' df1 = Inr s_lat" and t2: "to_numeric L s_lat = Inr lats"
    and s2: "setitem ''lat'' lats df1 = Inr df2"
    and g3: "getitem ''long'' df2 = Inr s_long" and t3: "to_numeric L s_long = Inr longs"
    and s3: "setitem ''long'' longs df2 = Inr df3"
    and g4: "getitem ''hrmn'' df3 = Inr s_hrmn"
    and s4: "setitem ''hour'' (dt_hour (to_datetime_HM s_hrmn)) df3 = Inr df4"
    and dr: "drop_columns [''hrmn''] df4 = Inr d"
    unfolding convert_types_def and_then_Inr_iff by blast
  have sub: "set COLUMNS_TO_KEEP \<subseteq> set (columns df)"
    and c0: "columns df0 = COLUMNS_TO_KEEP"
    and n0: "length (rows df0) = length (rows df)"
    using p by (auto simp: getitem_cols_Inr_iff)
  have r0: "rows df0 ! i = (fst (rows df ! i), snd (rows df ! i) |` set COLUMNS_TO_KEEP)"
    if "i < length (rows df)" for i
    using p that by (auto simp: getitem_cols_Inr_iff split_def)
  have sd: "s_date = column_of ''date'' df"
    using g1 column_of_project[OF p] by (simp add: getitem_Inr_iff keep_simps)
  have sl: "s_lat = column_of ''lat'' df"
    using g2 column_of_setitem[OF s1] column_of_project[OF p]
    by (simp add: getitem_Inr_iff keep_simps)
  have sg: "s_long = column_of ''long'' df"
    using g3 column_of_setitem[OF s2] column_of_setitem[OF s1] column_of_project[OF p]
    by (simp add: getitem_Inr_iff keep_simps)
  have sh: "s_hrmn = column_of ''hrmn'' df"
    using g4 column_of_setitem[OF s3] column_of_setitem[OF s2] column_of_setitem[OF s1]
      column_of_project[OF p]
    by (simp add: getitem_Inr_iff keep_simps)
  have n1: "length (rows df1) = length (rows df)" using length_rows_setitem[OF s1] n0 by simp
  have n2: "length (rows df2) = length (rows df)" using length_rows_setitem[OF s2] n1 by simp
  have n3: "length (rows df3) = length (rows df)" using length_rows_setitem[OF s3] n2 by simp
  have n4: "length (rows df4) = length (rows df)" using length_rows_setitem[OF s4] n3 by simp
  have l1: "length dates = length (rows df)" using s1 n0 by (simp add: setitem_Inr_iff)
  have l2: "length lats = length (rows df)" using s2 n1 by (simp add: setitem_Inr_iff)
  have l3: "length longs = length (rows df)" using s3 n2 by (simp add: setitem_Inr_iff)
  have c4: "columns df4 = COLUMNS_TO_KEEP @ [''hour'']"
    using columns_setitem[OF s1] columns_setitem[OF s2] columns_setitem[OF s3]
      columns_setitem[OF s4] c0
    by (simp add: COLUMNS_TO_KEEP_def)
  have cd: "columns d = CLEANED_COLUMNS"
    using dr c4 by (simp add: drop_columns_Inr_iff COLUMNS_TO_KEEP_def CLEANED_COLUMNS_def)
  have nd: "length (rows d) = length (rows df)"
    using dr n4 by (auto simp: drop_columns_Inr_iff)
  have rd: "rows d ! i = converted_row (rows df ! i) (dates ! i) (lats ! i) (longs ! i) (hours_of df ! i)"
    if i: "i < length (rows df)" for i
  proof -
    have "rows d ! i = (fst (rows df4 ! i), snd (rows df4 ! i) |` (- {''hrmn''}))"
      using dr i n4 by (auto simp: drop_columns_Inr_iff split_def)
    then show ?thesis
      using rows_setitem_nth[OF s4, of i] rows_setitem_nth[OF s3, of i] rows_setitem_nth[OF s2, of i]
        rows_setitem_nth[OF s1, of i] r0[OF i] i n0 n1 n2 n3 sh
      by (simp add: converted_row_def hours_of_def)
  qed
  have "rows d = rows (converted df dates lats longs)"
    by (rule nth_equalityI) (simp_all add: converted_def nd rd)
  then have "d = converted df dates lats longs"
    using cd by (simp add: converted_def)
  then show ?thesis
    using sub t1 t2 t3 sd sl sg l1 l2 l3 by blast
qed

lemma convert_types_eq:
  assumes "set COLUMNS_TO_KEEP \<subseteq> set (columns df)"
    and "to_datetime L now (column_of ''date'' df) = Inr dates" and "length dates = length (rows df)"
    and "to_numeric L (column_of ''lat'' df) = Inr lats" and "length lats = length (rows df)"
    and "to_numeric L (column_of ''long'' df) = Inr longs" and "length longs = length (rows df)"
  shows "convert_types L now df = Inr (converted df dates lats longs)"
proof -
  obtain df0 where p: "getitem_cols COLUMNS_TO_KEEP df = Inr df0"
    using assms(1) by (simp add: getitem_cols_Inr_iff)
  have c0: "columns df0 = COLUMNS_TO_KEEP" and n0: "length (rows df0) = length (rows df)"
    using p by (auto simp: getitem_cols_Inr_iff)
  have g1: "getitem ''date'' df0 = Inr (column_of ''date'' df)"
    using column_of_project[OF p] c0 by (simp add: getitem_Inr_iff keep_simps)
  obtain df1 where s1: "setitem ''date'' dates df0 = Inr df1"
    using assms(3) n0 by (simp add: setitem_Inr_iff)
  have c1: "columns df1 = COLUMNS_TO_KEEP" using columns_setitem[OF s1] c0 by (simp add: keep_simps)
  have n1: "length (rows df1) = length (rows df)" using length_rows_setitem[OF s1] n0 by simp
  have g2: "getitem ''lat'' df1 = Inr (column_of ''lat'' df)"
    using column_of_setitem[OF s1] column_of_project[OF p] c1
    by (simp add: getitem_Inr_iff keep_simps)
  obtain df2 where s2: "setitem ''lat'' lats df1 = Inr df2"
    using assms(5) n1 by (simp add: setitem_Inr_iff)
  have c2: "columns df2 = COLUMNS_TO_KEEP" using columns_setitem[OF s2] c1 by (simp add: keep_simps)
  have n2: "length (rows df2) = length (rows df)" using length_rows_setitem[OF s2] n1 by simp
  have g3: "getitem ''long'' df2 = Inr (column_of ''long'' df)"
    using column_of_setitem[OF s2] column_of_setitem[OF s1] column_of_project[OF p] c2
    by (simp add: getitem_Inr_iff keep_simps)
  obtain df3 where s3: "setitem ''long'' longs df2 = Inr df3"
    using assms(7) n2 by (simp add: setitem_Inr_iff)
  have c3: "columns df3 = COLUMNS_TO_KEEP" using columns_setitem[OF s3] c2 by (simp add: keep_simps)
  have n3: "length (rows df3) = length (rows df)" using length_rows_setitem[OF s3] n2 by simp
  have g4: "getitem ''hrmn'' df3 = Inr (column_of ''hrmn'' df)"
    using column_of_setitem[OF s3] column_of_setitem[OF s2] column_of_setitem[OF s1]
      column_of_project[OF p] c3
    by (simp add: getitem_Inr_iff keep_simps)
  obtain df4 where s4: "setitem ''hour'' (dt_hour (to_datetime_HM (column_of ''hrmn'' df))) df3 = Inr df4"
    using n3 by (simp add: setitem_Inr_iff to_datetime_HM_def)
  have c4: "columns df4 = COLUMNS_TO_KEEP @ [''hour'']"
    using columns_setitem[OF s4] c3 by (simp add: keep_simps)
  obtain d where dr: "drop_columns [''hrmn''] df4 = Inr d"
    using c4 by (simp add: drop_columns_Inr_iff keep_simps)
  have "convert_types L now df = Inr d"
    unfolding convert_types_def
    by (simp add: p g1 assms(2) s1 g2 assms(4) s2 g3 assms(6) s3 g4 s4 dr)
  moreover from convert_types_InrD[OF this] have "d = converted df dates lats longs"
    using assms(2,4,6) by auto
  ultimately show ?thesis by simp
qed

lemma survives_conv:
  "survives x \<longleftrightarrow>
     list_all (\<lambda>c. \<not> isna (cell_at (snd x) c)) [''date'', ''lat'', ''long'', ''age'', ''hour'']
     \<and> ne_zero (cell_at (snd x) ''lat'')"
  by (auto simp: survives_def has_missing_def zero_lat_def)

lemma drop_rows_Inr_iff:
  "drop_rows d = Inr (d', k) \<longleftrightarrow>
     set [''date'', ''lat'', ''long'', ''age'', ''hour''] \<subseteq> set (columns d) \<and>
     d' = d\<lparr>rows := filter survives (rows d)\<rparr> \<and>
     k = length (rows d) - length (filter survives (rows d))"
proof -
  let ?nm = "\<lambda>(l, r). list_all (\<lambda>c. \<not> isna (cell_at r c)) [''date'', ''lat'', ''long'', ''age'', ''hour'']"
  let ?d1 = "d\<lparr>rows := filter ?nm (rows d)\<rparr>"
  have m: "map snd (filter fst (zip (map ne_zero (column_of ''lat'' ?d1)) (rows ?d1)))
           = filter survives (rows d)"
  proof -
    have "map ne_zero (column_of ''lat'' ?d1) = map (\<lambda>x. ne_zero (cell_at (snd x) ''lat'')) (rows ?d1)"
      by (simp add: column_of_def split_def)
    then have "map snd (filter fst (zip (map ne_zero (column_of ''lat'' ?d1)) (rows ?d1)))
           = filter (\<lambda>x. ne_zero (cell_at (snd x) ''lat'')) (rows ?d1)"
      by (simp only: mask_filter)
    also have "\<dots> = filter survives (rows d)"
      by (auto simp: survives_conv split_def intro: filter_cong)
    finally show ?thesis .
  qed
  show ?thesis
  proof (cases "set [''date'', ''lat'', ''long'', ''age'', ''hour''] \<subseteq> set (columns d)")
    case True
    then have dn: "dropna [''date'', ''lat'', ''long'', ''age'', ''hour''] d = Inr ?d1"
      by (simp add: dropna_Inr_iff)
    have g: "getitem ''lat'' ?d1 = Inr (column_of ''lat'' ?d1)"
      using True by (simp add: getitem_Inr_iff)
    have gm: "getitem_mask (map ne_zero (column_of ''lat'' ?d1)) ?d1
                = Inr (d\<lparr>rows := filter survives (rows d)\<rparr>)"
      unfolding getitem_mask_def using m by simp
    show ?thesis
      unfolding drop_rows_def Let_def dn g and_then_Inr gm using True by auto
  next
    case False
    then have "\<And>x. dropna [''date'', ''lat'', ''long'', ''age'', ''hour''] d \<noteq> Inr x"
      using dropna_Inr_iff by blast
    then show ?thesis
      using False unfolding drop_rows_def Let_def and_then_Inr_iff by blast
  qed
qed

lemma astype_int_InrD:
  "astype_int L xs = Inr ys \<Longrightarrow> list_all (\<lambda>c. \<not> isl (astype_int_cell L c)) xs \<and> ys = map (cast_of L) xs"
  by (induction xs arbitrary: ys) (auto simp: cast_of_def split: sum.splits)

lemma astype_int_InrI:
  "list_all (\<lambda>c. \<not> isl (astype_int_cell L c)) xs \<Longrightarrow> astype_int L xs = Inr (map (cast_of L) xs)"
  by (induction xs) (auto simp: cast_of_def split: sum.splits)

lemma astype_int_Inr_iff:
  "astype_int L xs = Inr ys \<longleftrightarrow> list_all (\<lambda>c. \<not> isl (astype_int_cell L c)) xs \<and> ys = map (cast_of L) xs"
  using astype_int_InrD astype_int_InrI by blast

lemma finalize_types_Inr_iff:
  "finalize_types L d = Inr d' \<longleftrightarrow>
     ''age'' \<in> set (columns d) \<and> ''hour'' \<in> set (columns d) \<and>
     list_all (\<lambda>x. \<not> isl (astype_int_cell L (cell_at (snd x) ''age''))) (rows d) \<and>
     list_all (\<lambda>x. \<not> isl (astype_int_cell L (cell_at (snd x) ''hour''))) (rows d) \<and>
     d' = d\<lparr>rows := map (finalized L) (rows d)\<rparr>"
  (is "?l \<longleftrightarrow> ?r")
proof -
  let ?ages = "map (cast_of L) (column_of ''age'' d)"
  let ?d1 = "\<lparr>columns = columns d, rows = map2 (\<lambda>(l, r) v. (l, r(''age'' \<mapsto> v))) (rows d) ?ages\<rparr>"
  have r1: "rows ?d1 = map (\<lambda>x. (fst x, (snd x)(''age'' \<mapsto> cast_of L (cell_at (snd x) ''age'')))) (rows d)"
    by (rule nth_equalityI) (simp_all add: column_of_def split_def)
  have h1: "column_of ''hour'' ?d1 = column_of ''hour'' d"
    unfolding column_of_def r1 by (rule nth_equalityI) (simp_all add: split_def cell_at_def)
  let ?hours = "map (cast_of L) (column_of ''hour'' d)"
  have r2: "map2 (\<lambda>(l, r) v. (l, r(''hour'' \<mapsto> v))) (rows ?d1) ?hours = map (finalized L) (rows d)"
    unfolding r1 by (rule nth_equalityI) (simp_all add: column_of_def split_def finalized_def)
  have la: "list_all (\<lambda>c. \<not> isl (astype_int_cell L c)) (column_of c d)
            \<longleftrightarrow> list_all (\<lambda>x. \<not> isl (astype_int_cell L (cell_at (snd x) c))) (rows d)" for c
    by (simp add: column_of_def list_all_iff split_def)
  show ?thesis
  proof
    assume ?l
    then obtain s_age ages df1 s_hour hours where
      g1: "getitem ''age'' d = Inr s_age" and a1: "astype_int L s_age = Inr ages"
      and s1: "setitem ''age'' ages d = Inr df1" and g2: "getitem ''hour'' df1 = Inr s_hour"
      and a2: "astype_int L s_hour = Inr hours" and s2: "setitem ''hour'' hours df1 = Inr d'"
      unfolding finalize_types_def and_then_Inr_iff by blast
    have ca: "''age'' \<in> set (columns d)" and sa: "s_age = column_of ''age'' d"
      using g1 by (auto simp: getitem_Inr_iff)
    have ages: "ages = ?ages" and pa: "list_all (\<lambda>c. \<not> isl (astype_int_cell L c)) (column_of ''age'' d)"
      using a1 sa by (auto simp: astype_int_Inr_iff)
    have df1: "df1 = ?d1" using s1 ca ages by (simp add: setitem_Inr_iff)
    have ch: "''hour'' \<in> set (columns d)" and sh: "s_hour = column_of ''hour'' d"
      using g2 h1 unfolding df1 by (auto simp: getitem_Inr_iff)
    have hours: "hours = ?hours" and ph: "list_all (\<lambda>c. \<not> isl (astype_int_cell L c)) (column_of ''hour'' d)"
      using a2 sh by (auto simp: astype_int_Inr_iff)
    have "d' = d\<lparr>rows := map (finalized L) (rows d)\<rparr>"
      using s2 ch r2 unfolding df1 hours by (simp add: setitem_Inr_iff)
    then show ?r using ca ch pa ph la by simp
  next
    assume r: ?r
    have g1: "getitem ''age'' d = Inr (column_of ''age'' d)" using r by (simp add: getitem_Inr_iff)
    have a1: "astype_int L (column_of ''age'' d) = Inr ?ages" using r la by (simp add: astype_int_Inr_iff)
    have s1: "setitem ''age'' ?ages d = Inr ?d1" using r by (simp add: setitem_Inr_iff)
    have g2: "getitem ''hour'' ?d1 = Inr (column_of ''hour'' d)"
      using r h1 by (simp add: getitem_Inr_iff)
    have a2: "astype_int L (column_of ''hour'' d) = Inr ?hours" using r la by (simp add: astype_int_Inr_iff)
    have s2: "setitem ''hour'' ?hours ?d1 = Inr d'"
      using r r2 by (simp add: setitem_Inr_iff)
    show ?l
      unfolding finalize_types_def g1 and_then_Inr a1 s1 g2 a2 s2 ..
  qed
qed

lemma clean_table_Inr_iff:
  "clean_table L now df = Inr (out, k) \<longleftrightarrow>
     (\<exists>d. convert_types L now df = Inr d \<and>
        list_all (\<lambda>x. \<not> isl (astype_int_cell L (cell_at (snd x) ''age''))) (filter survives (rows d)) \<and>
        list_all (\<lambda>x. \<not> isl (astype_int_cell L (cell_at (snd x) ''hour''))) (filter survives (rows d)) \<and>
        out = \<lparr>columns = CLEANED_COLUMNS, rows = map (finalized L) (filter survives (rows d))\<rparr> \<and>
        k = length (rows d) - length (filter survives (rows d)))"
  (is "?l \<longleftrightarrow> ?r")
proof
  assume ?l
  then obtain d d2 k2 where c: "convert_types L now df = Inr d" and dr: "drop_rows d = Inr (d2, k2)"
    and f: "finalize_types L d2 = Inr out" and k: "k = k2"
    by (auto simp: clean_table_def and_then_Inr_iff split: prod.splits)
  from convert_types_InrD[OF c] have cd: "columns d = CLEANED_COLUMNS"
    by (auto simp: converted_def)
  from dr have d2: "d2 = d\<lparr>rows := filter survives (rows d)\<rparr>"
    and k2: "k2 = length (rows d) - length (filter survives (rows d))"
    by (simp_all add: drop_rows_Inr_iff)
  from f show ?r
    unfolding finalize_types_Inr_iff d2 using c cd k k2 by auto
next
  assume ?r
  then obtain d where c: "convert_types L now df = Inr d"
    and a: "list_all (\<lambda>x. \<not> isl (astype_int_cell L (cell_at (snd x) ''age''))) (filter survives (rows d))"
    and h: "list_all (\<lambda>x. \<not> isl (astype_int_cell L (cell_at (snd x) ''hour''))) (filter survives (rows d))"
    and o: "out = \<lparr>columns = CLEANED_COLUMNS, rows = map (finalized L) (filter survives (rows d))\<rparr>"
    and k: "k = length (rows d) - length (filter survives (rows d))"
    by blast
  from convert_types_InrD[OF c] have cd: "columns d = CLEANED_COLUMNS"
    by (auto simp: converted_def)
  have dr: "drop_rows d = Inr (d\<lparr>rows := filter survives (rows d)\<rparr>, k)"
    unfolding drop_rows_Inr_iff using cd k by (simp add: CLEANED_COLUMNS_def)
  have f: "finalize_types L (d\<lparr>rows := filter survives (rows d)\<rparr>) = Inr out"
    unfolding finalize_types_Inr_iff using a h o cd by (simp add: CLEANED_COLUMNS_def)
  show ?l
    unfolding clean_table_def by (simp add: c dr f)
qed

lemma converted_row_simps:
  "fst (converted_row x d la lo h) = fst x"
  "snd (converted_row x d la lo h) ''date'' = Some d"
  "snd (converted_row x d la lo h) ''lat'' = Some la"
  "snd (converted_row x d la lo h) ''long'' = Some lo"
  "snd (converted_row x d la lo h) ''hour'' = Some h"
  "snd (converted_row x d la lo h) ''hrmn'' = None"
  "snd (converted_row x d la lo h) ''age'' = snd x ''age''"
  "snd (converted_row x d la lo h) ''Num_Acc'' = snd x ''Num_Acc''"
  "snd (converted_row x d la lo h) ''grav'' = snd x ''grav''"
  "snd (converted_row x d la lo h) ''sexe'' = snd x ''sexe''"
  "snd (converted_row x d la lo h) ''atm'' = snd x ''atm''"
  "snd (converted_row x d la lo h) ''lum'' = snd x ''lum''"
  "snd (converted_row x d la lo h) ''dep'' = snd x ''dep''"
  by (simp_all add: converted_row_def COLUMNS_TO_KEEP_def restrict_map_def)

lemma converted_row_other:
  "c \<notin> set CLEANED_COLUMNS \<Longrightarrow> snd (converted_row x d la lo h) c = None"
  by (auto simp: converted_row_def COLUMNS_TO_KEEP_def CLEANED_COLUMNS_def restrict_map_def)

lemma finalized_simps:
  "fst (finalized L x) = fst x"
  "snd (finalized L x) ''age'' = Some (cast_of L (cell_at (snd x) ''age''))"
  "snd (finalized L x) ''hour'' = Some (cast_of L (cell_at (snd x) ''hour''))"
  "c \<noteq> ''age'' \<Longrightarrow> c \<noteq> ''hour'' \<Longrightarrow> snd (finalized L x) c = snd x c"
  by (simp_all add: finalized_def)

lemma digit_of_le: "digit_of c = Some d \<Longrightarrow> d \<le> 9"
  by (auto simp: digit_of_def split: if_splits)

lemma hour_field_bound: "hour_field s = Some h \<Longrightarrow> h < 24"
  by (auto simp: hour_field_def split: list.splits option.splits if_splits dest: digit_of_le)

lemma strptime_HM_bound: "strptime_HM s = Some (h, m) \<Longrightarrow> h < 24"
  by (auto simp: strptime_HM_def Let_def split: list.splits option.splits dest: hour_field_bound)

lemma to_datetime_HM_cell_bound: "to_datetime_HM_cell c = Some (h, m) \<Longrightarrow> h < 24"
  by (auto simp: to_datetime_HM_cell_def split: cell.splits dest: strptime_HM_bound)

lemma trunc_of_nat [simp]: "trunc_toward_zero (real h) = int h"
  by (simp add: trunc_toward_zero_def)

lemma hours_of_nth:
  assumes "i < length (rows df)"
  shows "case to_datetime_HM_cell (cell_at (snd (rows df ! i)) ''hrmn'') of
           None \<Rightarrow> hours_of df ! i = NA
         | Some (h, m) \<Rightarrow> (hours_of df ! i = IntV (int h) \<or> hours_of df ! i = FloatV (real h))"
  using assms
  by (auto simp: hours_of_def dt_hour_def to_datetime_HM_def column_of_def split_def
      split: option.splits)

lemma hours_of_NA_iff:
  assumes "i < length (rows df)"
  shows "hours_of df ! i = NA \<longleftrightarrow> to_datetime_HM_cell (cell_at (snd (rows df ! i)) ''hrmn'') = None"
  using hours_of_nth[OF assms] by (auto split: option.splits)

lemma wrap_int64_id: "- (2 ^ 63) \<le> i \<Longrightarrow> i < 2 ^ 63 \<Longrightarrow> wrap_int64 i = i"
  by (simp add: wrap_int64_def)

lemma astype_int_cell_small:
  assumes "h < 24"
  shows "astype_int_cell L (IntV (int h)) = Inr (IntV (int h))"
    and "astype_int_cell L (FloatV (real h)) = Inr (IntV (int h))"
proof -
  have b: "- (2 ^ 63) \<le> int h" "int h < 2 ^ 63" "int h < 2 ^ 64"
    using assms by simp_all
  show "astype_int_cell L (IntV (int h)) = Inr (IntV (int h))"
    using b by (simp add: astype_int_cell_def wrap_int64_id)
  show "astype_int_cell L (FloatV (real h)) = Inr (IntV (int h))"
    using b by (simp add: astype_int_cell_def)
qed

lemma hours_of_cast:
  assumes "i < length (rows df)"
    and "to_datetime_HM_cell (cell_at (snd (rows df ! i)) ''hrmn'') = Some (h, m)"
  shows "astype_int_cell L (hours_of df ! i) = Inr (IntV (int h))"
  using hours_of_nth[OF assms(1)] assms(2) to_datetime_HM_cell_bound[OF assms(2)]
  by (auto simp: astype_int_cell_small)

lemma survives_converted_row:
  "survives (converted_row x d la lo h) \<longleftrightarrow>
     d \<noteq> NA \<and> la \<noteq> NA \<and> lo \<noteq> NA \<and> cell_at (snd x) ''age'' \<noteq> NA \<and> h \<noteq> NA \<and> ne_zero la"
  by (auto simp: survives_def has_missing_def zero_lat_def isna_def cell_at_def converted_row_simps)

lemma rows_converted_nth:
  "i < length (rows df) \<Longrightarrow>
     rows (converted df dates lats longs) ! i
       = converted_row (rows df ! i) (dates ! i) (lats ! i) (longs ! i) (hours_of df ! i)"
  by (simp add: converted_def)

lemma length_rows_converted [simp]:
  "length (rows (converted df dates lats longs)) = length (rows df)"
  by (simp add: converted_def)


lemma converted_hour_castable:
  assumes "x \<in> set (rows (converted df dates lats longs))" and "survives x"
  shows "\<exists>h. h < 24 \<and> cell_at (snd x) ''hour'' \<noteq> NA \<and> astype_int_cell L (cell_at (snd x) ''hour'') = Inr (IntV (int h))"
proof -
  from assms(1) obtain i where i: "i < length (rows df)"
    and x: "x = converted_row (rows df ! i) (dates ! i) (lats ! i) (longs ! i) (hours_of df ! i)"
    by (auto simp: in_set_conv_nth rows_converted_nth)
  have hc: "cell_at (snd x) ''hour'' = hours_of df ! i"
    unfolding x by (simp add: cell_at_def converted_row_simps)
  from assms(2) have "hours_of df ! i \<noteq> NA"
    unfolding x survives_converted_row by simp
  then obtain h m where p: "to_datetime_HM_cell (cell_at (snd (rows df ! i)) ''hrmn'') = Some (h, m)"
    using hours_of_NA_iff[OF i] by (cases "to_datetime_HM_cell (cell_at (snd (rows df ! i)) ''hrmn'')") auto
  from hours_of_cast[OF i p] to_datetime_HM_cell_bound[OF p] \<open>hours_of df ! i \<noteq> NA\<close>
  show ?thesis unfolding hc by blast
qed

lemma clean_table_succeeds:
  assumes c: "convert_types L now df = Inr d"
    and a: "list_all (\<lambda>x. \<not> isl (astype_int_cell L (cell_at (snd x) ''age''))) (filter survives (rows d))"
  shows "clean_table L now df
           = Inr (\<lparr>columns = CLEANED_COLUMNS, rows = map (finalized L) (filter survives (rows d))\<rparr>,
                  length (rows d) - length (filter survives (rows d)))"
proof -
  from convert_types_InrD[OF c] obtain dates lats longs where d: "d = converted df dates lats longs"
    by blast
  have "list_all (\<lambda>x. \<not> isl (astype_int_cell L (cell_at (snd x) ''hour''))) (filter survives (rows d))"
    unfolding list_all_iff d using converted_hour_castable[where L = L] by fastforce
  then show ?thesis
    unfolding clean_table_Inr_iff using c a by blast
qed

lemma clean_table_rows:
  assumes "clean_table L now df = Inr (out, k)"
  shows "\<exists>dates lats longs.
           to_datetime L now (column_of ''date'' df) = Inr dates \<and> length dates = length (rows df) \<and>
           to_numeric L (column_of ''lat'' df) = Inr lats \<and> length lats = length (rows df) \<and>
           to_numeric L (column_of ''long'' df) = Inr longs \<and> length longs = length (rows df) \<and>
           convert_types L now df = Inr (converted df dates lats longs) \<and>
           columns out = CLEANED_COLUMNS \<and>
           rows out = map (finalized L) (filter survives (rows (converted df dates lats longs))) \<and>
           k = length (rows df) - length (rows out)"
proof -
  from assms obtain d where c: "convert_types L now df = Inr d"
    and o: "out = \<lparr>columns = CLEANED_COLUMNS, rows = map (finalized L) (filter survives (rows d))\<rparr>"
    and k: "k = length (rows d) - length (filter survives (rows d))"
    unfolding clean_table_Inr_iff by blast
  from convert_types_InrD[OF c] obtain dates lats longs where
    "to_datetime L now (column_of ''date'' df) = Inr dates" "length dates = length (rows df)"
    "to_numeric L (column_of ''lat'' df) = Inr lats" "length lats = length (rows df)"
    "to_numeric L (column_of ''long'' df) = Inr longs" "length longs = length (rows df)"
    "d = converted df dates lats longs"
    by blast
  then show ?thesis using c o k by (intro exI[of _ dates] exI[of _ lats] exI[of _ longs]) simp
qed

section \<open>Facts about the sample data\<close>

lemma sample_convert:
  assumes "set COLUMNS_TO_KEEP \<subseteq> set (columns df)"
  shows "convert_types sample_pandas now df
           = Inr (converted df (map (sample_date now) (column_of ''date'' df))
                    (map sample_number (column_of ''lat'' df))
                    (map sample_number (column_of ''long'' df)))"
  by (rule convert_types_eq[OF assms])
     (simp_all add: sample_pandas_def sample_to_datetime_def sample_to_numeric_def)

lemma sample_columns_keep: "set COLUMNS_TO_KEEP \<subseteq> set (columns (sample_frame rs))"
  by (simp add: sample_frame_def sample_columns_def COLUMNS_TO_KEEP_def)

lemma sample_row_cells:
  "sample_row ''Num_Acc'' = Some (IntV 1)"
  "sample_row ''date'' = Some (StrV ''2021-05-01'')"
  "sample_row ''lat'' = Some (FloatV 48.85)"
  "sample_row ''long'' = Some (FloatV 2.35)"
  "sample_row ''age'' = Some (IntV 34)"
  "sample_row ''grav'' = Some (IntV 3)"
  "sample_row ''sexe'' = Some (IntV 1)"
  "sample_row ''atm'' = Some (IntV 1)"
  "sample_row ''lum'' = Some (IntV 1)"
  "sample_row ''dep'' = Some (IntV 75)"
  "sample_row ''hrmn'' = Some (StrV ''14:30'')"
  by (simp_all add: sample_row_def)

lemma strptime_sample: "strptime_HM ''14:30'' = Some (14, 30)" "strptime_HM ''bad'' = None"
  by (simp_all add: strptime_HM_def hour_field_def minute_field_def digit_of_def)

lemma sample_table_rows:
  "rows sample_table =
     [(0, sample_row), (1, sample_row(''hrmn'' \<mapsto> StrV ''bad'')),
      (2, sample_row(''lat'' \<mapsto> FloatV 0)), (3, sample_row(''long'' \<mapsto> FloatV 0))]"
  by (simp add: sample_table_def sample_frame_def upt_rec)

lemma sample_table_columns: "columns sample_table = sample_columns"
  by (simp add: sample_table_def sample_frame_def)

lemma sample_columns_of:
  "column_of ''date'' sample_table
     = [StrV ''2021-05-01'', StrV ''2021-05-01'', StrV ''2021-05-01'', StrV ''2021-05-01'']"
  "column_of ''lat'' sample_table = [FloatV 48.85, FloatV 48.85, FloatV 0, FloatV 48.85]"
  "column_of ''long'' sample_table = [FloatV 2.35, FloatV 2.35, FloatV 2.35, FloatV 0]"
  "column_of ''hrmn'' sample_table = [StrV ''14:30'', StrV ''bad'', StrV ''14:30'', StrV ''14:30'']"
  by (simp_all add: column_of_def sample_table_rows cell_at_def sample_row_cells)

lemma sample_hours: "hours_of sample_table = [FloatV 14, NA, FloatV 14, FloatV 14]"
  by (simp add: hours_of_def sample_columns_of to_datetime_HM_def to_datetime_HM_cell_def
      strptime_sample dt_hour_def)

lemma sample_converted_rows:
  "rows (converted sample_table (map (sample_date now) (column_of ''date'' sample_table))
           (map sample_number (column_of ''lat'' sample_table))
           (map sample_number (column_of ''long'' sample_table)))
   = [sample_kept_0, sample_dropped_1, sample_dropped_2, sample_kept_3]"
  unfolding converted_def sample_hours sample_columns_of sample_kept_0_def sample_kept_3_def
    sample_dropped_1_def sample_dropped_2_def
  by (simp add: sample_table_rows upt_rec sample_date_def sample_number_def)

lemma sample_survivors:
  "survives sample_kept_0" "\<not> survives sample_dropped_1" "\<not> survives sample_dropped_2"
  "survives sample_kept_3"
  unfolding sample_kept_0_def sample_kept_3_def sample_dropped_1_def sample_dropped_2_def
  by (simp_all add: survives_converted_row cell_at_def sample_row_cells ne_zero_def)

lemma sample_kept_age:
  "cell_at (snd sample_kept_0) ''age'' = IntV 34" "cell_at (snd sample_kept_3) ''age'' = IntV 34"
  unfolding sample_kept_0_def sample_kept_3_def
  by (simp_all add: converted_row_simps cell_at_def sample_row_cells)

lemma sample_clean: "clean_table sample_pandas now sample_table = Inr (sample_cleaned, 2)"
proof -
  let ?d = "converted sample_table (map (sample_date now) (column_of ''date'' sample_table))
           (map sample_number (column_of ''lat'' sample_table))
           (map sample_number (column_of ''long'' sample_table))"
  have c: "convert_types sample_pandas now sample_table = Inr ?d"
    using sample_convert[OF sample_columns_keep] unfolding sample_table_def .
  have f: "filter survives (rows ?d) = [sample_kept_0, sample_kept_3]"
    unfolding sample_converted_rows by (simp add: sample_survivors)
  have n: "length (rows ?d) = 4"
    unfolding sample_converted_rows by simp
  have a: "list_all (\<lambda>x. \<not> isl (astype_int_cell sample_pandas (cell_at (snd x) ''age''))) (filter survives (rows ?d))"
    unfolding f by (simp add: sample_kept_age astype_int_cell_def)
  show ?thesis
    unfolding clean_table_succeeds[OF c a] f n sample_cleaned_def by simp
qed

lemma sample_cleaned_rows: "rows sample_cleaned = [finalized sample_pandas sample_kept_0, finalized sample_pandas sample_kept_3]"
  by (simp add: sample_cleaned_def)

lemma sample_kept_hour:
  "snd (finalized sample_pandas sample_kept_0) ''hour'' = Some (IntV 14)"
  "snd (finalized sample_pandas sample_kept_3) ''hour'' = Some (IntV 14)"
  unfolding sample_kept_0_def sample_kept_3_def
  by (simp_all add: finalized_simps converted_row_simps cell_at_def cast_of_def astype_int_cell_def
      trunc_toward_zero_def)

text \<open>
  Claim C9. In every row of the output table the field \<^verbatim>\<open>hour\<close> is an integer between
  0 and 23: it is the hour of a time that was parsed from \<^verbatim>\<open>hrmn\<close> in the format
  \<^verbatim>\<open>%H:%M\<close>, cast to an integer.
\<close>

theorem hour_in_range:
  assumes "clean_table L now df = Inr (out, k)" and "x \<in> set (rows out)"
  shows "\<exists>h. snd x ''hour'' = Some (IntV h) \<and> 0 \<le> h \<and> h \<le> 23"
proof -
  from clean_table_rows[OF assms(1)] obtain dates lats longs where
    r: "rows out = map (finalized L) (filter survives (rows (converted df dates lats longs)))"
    by blast
  from assms(2) obtain y where y: "y \<in> set (rows (converted df dates lats longs))"
    and s: "survives y" and x: "x = finalized L y"
    unfolding r by auto
  from converted_hour_castable[OF y s] obtain h where
    "h < 24" "astype_int_cell L (cell_at (snd y) ''hour'') = Inr (IntV (int h))"
    by blast
  then have "snd x ''hour'' = Some (IntV (int h)) \<and> 0 \<le> int h \<and> int h \<le> 23"
    unfolding x by (simp add: finalized_simps cast_of_def)
  then show ?thesis by blast
qed

theorem hour_in_range_witness:
  "clean_table sample_pandas sample_now sample_table = Inr (sample_cleaned, 2) \<and>
   finalized sample_pandas sample_kept_0 \<in> set (rows sample_cleaned) \<and>
   snd (finalized sample_pandas sample_kept_0) ''hour'' = Some (IntV 14) \<and>
   (\<exists>h. snd (finalized sample_pandas sample_kept_0) ''hour'' = Some (IntV h) \<and> 0 \<le> h \<and> h \<le> 23)"
proof -
  have m: "finalized sample_pandas sample_kept_0 \<in> set (rows sample_cleaned)"
    by (simp add: sample_cleaned_rows)
  from hour_in_range[OF sample_clean m] sample_clean m sample_kept_hour(1) show ?thesis by blast
qed







lemma dom_converted_row:
  assumes "set COLUMNS_TO_KEEP \<subseteq> dom (snd x)"
  shows "dom (snd (converted_row x d la lo h)) = set CLEANED_COLUMNS"
proof -
  have "dom (snd (converted_row x d la lo h))
          = (dom (snd x) \<inter> set COLUMNS_TO_KEEP \<union> {''date'', ''lat'', ''long'', ''hour''}) - {''hrmn''}"
    by (auto simp: converted_row_def restrict_map_def dom_def split: if_splits)
  also have "dom (snd x) \<inter> set COLUMNS_TO_KEEP = set COLUMNS_TO_KEEP"
    using assms by blast
  also have "(set COLUMNS_TO_KEEP \<union> {''date'', ''lat'', ''long'', ''hour''}) - {''hrmn''}
               = set CLEANED_COLUMNS"
    by (auto simp: COLUMNS_TO_KEEP_def CLEANED_COLUMNS_def)
  finally show ?thesis .
qed

lemma dom_finalized:
  assumes "dom (snd y) = set CLEANED_COLUMNS"
  shows "dom (snd (finalized L y)) = set CLEANED_COLUMNS"
proof -
  have "dom (snd (finalized L y)) = insert ''age'' (insert ''hour'' (dom (snd y)))"
    by (auto simp: finalized_def)
  then show ?thesis unfolding assms by (auto simp: CLEANED_COLUMNS_def)
qed

text \<open>
  Claim C5. When the run succeeds, the output table has exactly the eleven columns
  Num_Acc, date, lat, long, age, grav, sexe, atm, lum, dep, hour, in this order, whatever
  other columns the input has; \<^verbatim>\<open>hrmn\<close> is not among them, and every output row has
  a cell for each of these columns and for nothing else.
\<close>

theorem output_columns:
  assumes "clean_table L now df = Inr (out, k)" and "well_formed df"
  shows "columns out =
           [''Num_Acc'', ''date'', ''lat'', ''long'', ''age'', ''grav'', ''sexe'', ''atm'', ''lum'',
            ''dep'', ''hour'']
         \<and> ''hrmn'' \<notin> set (columns out)
         \<and> (\<forall>x \<in> set (rows out). dom (snd x) = set (columns out))"
proof -
  from clean_table_rows[OF assms(1)] obtain dates lats longs where
    c: "convert_types L now df = Inr (converted df dates lats longs)"
    and co: "columns out = CLEANED_COLUMNS"
    and r: "rows out = map (finalized L) (filter survives (rows (converted df dates lats longs)))"
    by blast
  from convert_types_InrD[OF c] have sub: "set COLUMNS_TO_KEEP \<subseteq> set (columns df)"
    by blast
  have "dom (snd x) = set CLEANED_COLUMNS" if "x \<in> set (rows out)" for x
  proof -
    from that obtain y where y: "y \<in> set (rows (converted df dates lats longs))" and x: "x = finalized L y"
      unfolding r by auto
    from y obtain i where i: "i < length (rows df)"
      and yi: "y = converted_row (rows df ! i) (dates ! i) (lats ! i) (longs ! i) (hours_of df ! i)"
      by (auto simp: in_set_conv_nth rows_converted_nth)
    have "dom (snd (rows df ! i)) = set (columns df)"
      using assms(2) i unfolding well_formed_def list_all_iff by simp
    with sub have "set COLUMNS_TO_KEEP \<subseteq> dom (snd (rows df ! i))" by simp
    from dom_finalized[OF dom_converted_row[OF this]] show ?thesis
      unfolding x yi .
  qed
  then show ?thesis
    unfolding co by (simp add: CLEANED_COLUMNS_def)
qed

lemma sample_well_formed: "well_formed sample_table"
proof -
  have d: "dom sample_row = set sample_columns"
    unfolding sample_row_def sample_columns_def by auto
  have c: "''hrmn'' \<in> set sample_columns" "''lat'' \<in> set sample_columns" "''long'' \<in> set sample_columns"
    by (simp_all add: sample_columns_def)
  have "distinct sample_columns"
    by (simp add: sample_columns_def)
  then show ?thesis
    unfolding well_formed_def sample_table_rows sample_table_columns
    using d c by auto
qed

theorem output_columns_witness:
  "clean_table sample_pandas sample_now sample_table = Inr (sample_cleaned, 2) \<and> well_formed sample_table \<and>
   ''com'' \<in> set (columns sample_table) \<and>
   columns sample_cleaned =
     [''Num_Acc'', ''date'', ''lat'', ''long'', ''age'', ''grav'', ''sexe'', ''atm'', ''lum'',
      ''dep'', ''hour'']
   \<and> ''hrmn'' \<notin> set (columns sample_cleaned)
   \<and> dom (snd (finalized sample_pandas sample_kept_0)) = set (columns sample_cleaned)
   \<and> dom (snd (finalized sample_pandas sample_kept_3)) = set (columns sample_cleaned)"
  using output_columns[OF sample_clean sample_well_formed] sample_clean sample_well_formed
  by (simp add: sample_table_columns sample_columns_def sample_cleaned_rows)




lemma clean_table_rows_with:
  assumes "clean_table L now df = Inr (out, k)"
    and "to_datetime L now (column_of ''date'' df) = Inr dates"
    and "to_numeric L (column_of ''lat'' df) = Inr lats"
    and "to_numeric L (column_of ''long'' df) = Inr longs"
  shows "rows out = map (finalized L) (filter survives (rows (converted df dates lats longs)))"
    and "columns out = CLEANED_COLUMNS"
    and "length dates = length (rows df)" and "length lats = length (rows df)"
    and "length longs = length (rows df)"
  using clean_table_rows[OF assms(1)] assms(2-4) by auto

lemma survivor_in_output:
  assumes "clean_table L now df = Inr (out, k)"
    and "to_datetime L now (column_of ''date'' df) = Inr dates"
    and "to_numeric L (column_of ''lat'' df) = Inr lats"
    and "to_numeric L (column_of ''long'' df) = Inr longs"
    and "i < length (rows df)"
    and "survives (converted_row (rows df ! i) (dates ! i) (lats ! i) (longs ! i) (hours_of df ! i))"
  shows "finalized L (converted_row (rows df ! i) (dates ! i) (lats ! i) (longs ! i) (hours_of df ! i))
           \<in> set (rows out)"
proof -
  let ?y = "converted_row (rows df ! i) (dates ! i) (lats ! i) (longs ! i) (hours_of df ! i)"
  have "?y \<in> set (rows (converted df dates lats longs))"
    using assms(5) rows_converted_nth[OF assms(5), of dates lats longs]
    by (metis length_rows_converted nth_mem)
  then show ?thesis
    unfolding clean_table_rows_with(1)[OF assms(1-4)] using assms(6) by simp
qed

lemma label_in_output:
  assumes "clean_table L now df = Inr (out, k)"
    and "to_datetime L now (column_of ''date'' df) = Inr dates"
    and "to_numeric L (column_of ''lat'' df) = Inr lats"
    and "to_numeric L (column_of ''long'' df) = Inr longs"
    and "i < length (rows df)"
    and "distinct_index df"
  shows "fst (rows df ! i) \<in> fst ` set (rows out) \<longleftrightarrow>
           survives (converted_row (rows df ! i) (dates ! i) (lats ! i) (longs ! i) (hours_of df ! i))"
    (is "?l \<longleftrightarrow> survives ?y")
proof
  assume "survives ?y"
  from survivor_in_output[OF assms(1-5) this]
  have "fst (finalized L ?y) \<in> fst ` set (rows out)"
    by (rule imageI)
  then show ?l
    by (simp add: finalized_simps converted_row_simps)
next
  assume ?l
  then obtain z where z: "z \<in> set (rows (converted df dates lats longs))" and s: "survives z"
    and f: "fst z = fst (rows df ! i)"
    unfolding clean_table_rows_with(1)[OF assms(1-4)] by (auto simp: finalized_simps)
  from z obtain j where j: "j < length (rows df)"
    and zj: "z = converted_row (rows df ! j) (dates ! j) (lats ! j) (longs ! j) (hours_of df ! j)"
    by (auto simp: in_set_conv_nth rows_converted_nth)
  have "map fst (rows df) ! j = map fst (rows df) ! i"
    using f j assms(5) unfolding zj by (simp add: converted_row_simps)
  then have "j = i"
    using assms(6) j assms(5) unfolding distinct_index_def
    by (simp add: nth_eq_iff_index_eq del: nth_map)
  with s zj show "survives ?y" by simp
qed

lemma sample_library:
  "to_datetime sample_pandas now (column_of ''date'' sample_table)
     = Inr [DatetimeV 1619827200000000000, DatetimeV 1619827200000000000,
            DatetimeV 1619827200000000000, DatetimeV 1619827200000000000]"
  "to_numeric sample_pandas (column_of ''lat'' sample_table)
     = Inr [FloatV 48.85, FloatV 48.85, FloatV 0, FloatV 48.85]"
  "to_numeric sample_pandas (column_of ''long'' sample_table)
     = Inr [FloatV 2.35, FloatV 2.35, FloatV 2.35, FloatV 0]"
  unfolding sample_columns_of
  by (simp_all add: sample_pandas_def sample_to_datetime_def sample_to_numeric_def sample_date_def
      sample_number_def)

lemma sample_table_nth:
  "rows sample_table ! 0 = (0, sample_row)"
  "rows sample_table ! 1 = (1, sample_row(''hrmn'' \<mapsto> StrV ''bad''))"
  "rows sample_table ! 2 = (2, sample_row(''lat'' \<mapsto> FloatV 0))"
  "rows sample_table ! 3 = (3, sample_row(''long'' \<mapsto> FloatV 0))"
  "length (rows sample_table) = 4"
  by (simp_all add: sample_table_rows)

lemma sample_labels: "fst ` set (rows sample_cleaned) = {0, 3}"
  unfolding sample_cleaned_rows sample_kept_0_def sample_kept_3_def
  by (simp add: finalized_simps converted_row_simps)

lemma sample_distinct_index: "distinct_index sample_table"
  by (simp add: distinct_index_def sample_table_rows)

lemma sample_keeps_missing:
  "keeps_missing (to_datetime sample_pandas now)" "keeps_missing (to_numeric sample_pandas)"
  by (auto simp: keeps_missing_def sample_pandas_def sample_to_datetime_def sample_to_numeric_def
      sample_date_def sample_number_def)

text \<open>
  Claim C3. When the run succeeds, a raw row whose date, latitude, longitude or age is
  missing, or whose date, latitude or longitude is missing after the coercion, or whose
  \<^verbatim>\<open>hrmn\<close> does not parse in the format \<^verbatim>\<open>%H:%M\<close>, is not in the output: no
  output row has its index label. The index labels of the raw table are distinct, and
  the library parsers keep a missing value missing.
\<close>

theorem incomplete_row_absent:
  assumes "clean_table L now df = Inr (out, k)"
    and "distinct_index df"
    and "keeps_missing (to_datetime L now)" and "keeps_missing (to_numeric L)"
    and "i < length (rows df)" and "rows df ! i = (l, r)"
    and "to_datetime L now (column_of ''date'' df) = Inr dates"
    and "to_numeric L (column_of ''lat'' df) = Inr lats"
    and "to_numeric L (column_of ''long'' df) = Inr longs"
    and "cell_at r ''date'' = NA \<or> dates ! i = NA \<or> cell_at r ''lat'' = NA \<or> lats ! i = NA
         \<or> cell_at r ''long'' = NA \<or> longs ! i = NA \<or> cell_at r ''age'' = NA
         \<or> to_datetime_HM_cell (cell_at r ''hrmn'') = None"
  shows "l \<notin> fst ` set (rows out)"
proof -
  note len = clean_table_rows_with(3-5)[OF assms(1,7,8,9)]
  have col: "column_of c df ! i = cell_at r c" for c
    using assms(5,6) by (simp add: column_of_nth)
  have d: "cell_at r ''date'' = NA \<Longrightarrow> dates ! i = NA"
    using assms(3,5,7) len(1) col[of "''date''"] unfolding keeps_missing_def
    by (metis length_column_of)
  have la: "cell_at r ''lat'' = NA \<Longrightarrow> lats ! i = NA"
    using assms(4,5,8) len(2) col[of "''lat''"] unfolding keeps_missing_def
    by (metis length_column_of)
  have lo: "cell_at r ''long'' = NA \<Longrightarrow> longs ! i = NA"
    using assms(4,5,9) len(3) col[of "''long''"] unfolding keeps_missing_def
    by (metis length_column_of)
  have h: "to_datetime_HM_cell (cell_at r ''hrmn'') = None \<Longrightarrow> hours_of df ! i = NA"
    using hours_of_NA_iff[OF assms(5)] assms(6) by simp
  have "\<not> survives (converted_row (rows df ! i) (dates ! i) (lats ! i) (longs ! i) (hours_of df ! i))"
    unfolding survives_converted_row using assms(6,10) d la lo h by auto
  then show ?thesis
    using label_in_output[OF assms(1,7,8,9,5,2)] assms(6) by simp
qed

theorem incomplete_row_absent_witness:
  "clean_table sample_pandas sample_now sample_table = Inr (sample_cleaned, 2) \<and>
   rows sample_table ! 1 = (1, sample_row(''hrmn'' \<mapsto> StrV ''bad'')) \<and>
   to_datetime_HM_cell (cell_at (sample_row(''hrmn'' \<mapsto> StrV ''bad'')) ''hrmn'') = None \<and>
   1 \<notin> fst ` set (rows sample_cleaned)"
proof -
  have i: "1 < length (rows sample_table)" by (simp add: sample_table_nth)
  have p: "to_datetime_HM_cell (cell_at (sample_row(''hrmn'' \<mapsto> StrV ''bad'')) ''hrmn'') = None"
    by (simp add: cell_at_def to_datetime_HM_cell_def strptime_sample)
  from incomplete_row_absent[OF sample_clean sample_distinct_index sample_keeps_missing i
      sample_table_nth(2) sample_library] p
  show ?thesis
    using sample_clean sample_table_nth(2) by simp
qed

text \<open>
  Claim C4. When the run succeeds, a row whose latitude (after the coercion) equals 0
  is not in the output, whatever its other fields are; and a row whose longitude equals 0
  is in the output when its latitude is different from 0 and its critical values are all
  present: only the latitude is tested against 0.
\<close>

theorem zero_latitude_dropped:
  assumes "clean_table L now df = Inr (out, k)"
    and "distinct_index df"
    and "i < length (rows df)" and "rows df ! i = (l, r)"
    and "to_datetime L now (column_of ''date'' df) = Inr dates"
    and "to_numeric L (column_of ''lat'' df) = Inr lats"
    and "to_numeric L (column_of ''long'' df) = Inr longs"
  shows "(\<not> ne_zero (lats ! i) \<longrightarrow> l \<notin> fst ` set (rows out)) \<and>
         (dates ! i \<noteq> NA \<and> lats ! i \<noteq> NA \<and> ne_zero (lats ! i) \<and> longs ! i \<noteq> NA \<and>
          \<not> ne_zero (longs ! i) \<and> cell_at r ''age'' \<noteq> NA \<and>
          to_datetime_HM_cell (cell_at r ''hrmn'') \<noteq> None
            \<longrightarrow> l \<in> fst ` set (rows out))"
proof -
  have h: "to_datetime_HM_cell (cell_at r ''hrmn'') \<noteq> None \<longleftrightarrow> hours_of df ! i \<noteq> NA"
    using hours_of_NA_iff[OF assms(3)] assms(4) by simp
  show ?thesis
    using label_in_output[OF assms(1,5,6,7,3,2)] assms(4) h
    unfolding survives_converted_row by simp
qed

theorem zero_latitude_dropped_witness:
  "clean_table sample_pandas sample_now sample_table = Inr (sample_cleaned, 2) \<and>
   rows sample_table ! 2 = (2, sample_row(''lat'' \<mapsto> FloatV 0)) \<and>
   rows sample_table ! 3 = (3, sample_row(''long'' \<mapsto> FloatV 0)) \<and>
   2 \<notin> fst ` set (rows sample_cleaned) \<and> 3 \<in> fst ` set (rows sample_cleaned)"
proof -
  have i: "2 < length (rows sample_table)" "3 < length (rows sample_table)"
    by (simp_all add: sample_table_nth)
  have p: "to_datetime_HM_cell (cell_at (sample_row(''long'' \<mapsto> FloatV 0)) ''hrmn'') \<noteq> None"
    "cell_at (sample_row(''long'' \<mapsto> FloatV 0)) ''age'' \<noteq> NA"
    by (simp_all add: cell_at_def to_datetime_HM_cell_def strptime_sample sample_row_cells)
  from zero_latitude_dropped[OF sample_clean sample_distinct_index i(1) sample_table_nth(3) sample_library]
  have a: "2 \<notin> fst ` set (rows sample_cleaned)"
    by (simp add: ne_zero_def)
  from zero_latitude_dropped[OF sample_clean sample_distinct_index i(2) sample_table_nth(4) sample_library] p
  have b: "3 \<in> fst ` set (rows sample_cleaned)"
    by (simp add: ne_zero_def)
  from a b sample_clean sample_table_nth show ?thesis by simp
qed

section \<open>Properties of the run on a file system\<close>

subsection \<open>Paths\<close>










subsection \<open>A raw file that is not found\<close>









subsection \<open>Two runs on the same raw file\<close>























section \<open>The cast of the column age\<close>

lemma sample_age_pair:
  assumes a0: "a0 \<noteq> NA" and a1: "a1 \<noteq> NA"
    and e: "astype_int sample_pandas [a0, a1] = Inl e"
  shows "clean_table sample_pandas t
           (sample_frame [sample_row(''age'' \<mapsto> a0), sample_row(''age'' \<mapsto> a1)]) = Inl e"
proof -
  define df where "df = sample_frame [sample_row(''age'' \<mapsto> a0), sample_row(''age'' \<mapsto> a1)]"
  define d where "d = converted df (map (sample_date t) (column_of ''date'' df))
           (map sample_number (column_of ''lat'' df))
           (map sample_number (column_of ''long'' df))"
  have c: "convert_types sample_pandas t df = Inr d"
    using sample_convert[OF sample_columns_keep] unfolding df_def d_def .
  have rs: "rows df = [(0, sample_row(''age'' \<mapsto> a0)), (1, sample_row(''age'' \<mapsto> a1))]"
    by (simp add: df_def sample_frame_def upt_rec)
  have cols: "columns d = CLEANED_COLUMNS"
    by (simp add: d_def converted_def)
  have n: "length (rows d) = 2"
    by (simp add: d_def rs)
  have h: "hours_of df = [IntV 14, IntV 14]"
    by (simp add: hours_of_def column_of_def rs cell_at_def sample_row_cells to_datetime_HM_def
        to_datetime_HM_cell_def strptime_sample dt_hour_def)
  have s: "survives x" if "x \<in> set (rows d)" for x
  proof -
    from that obtain i where i: "i < 2" and x: "x = rows d ! i"
      unfolding in_set_conv_nth n by blast
    from i have "i = 0 \<or> i = 1" by auto
    then show ?thesis
      unfolding x d_def using a0 a1
      by (auto simp: rows_converted_nth rs h survives_converted_row column_of_def cell_at_def
          sample_row_cells sample_date_def sample_number_def ne_zero_def)
  qed
  then have f: "filter survives (rows d) = rows d"
    by (simp add: filter_id_conv)
  have dr: "drop_rows d = Inr (d, 0)"
    unfolding drop_rows_Inr_iff f using cols by (simp add: CLEANED_COLUMNS_def)
  have a: "column_of ''age'' d = [a0, a1]"
  proof (rule nth_equalityI)
    show "length (column_of ''age'' d) = length [a0, a1]"
      by (simp add: n)
  next
    fix i assume "i < length (column_of ''age'' d)"
    then have "i = 0 \<or> i = 1" using n by auto
    then show "column_of ''age'' d ! i = [a0, a1] ! i"
      using n
      by (auto simp: column_of_nth d_def rows_converted_nth rs converted_row_simps cell_at_def)
  qed
  have g: "getitem ''age'' d = Inr [a0, a1]"
    using cols a by (simp add: getitem_def CLEANED_COLUMNS_def)
  have fi: "finalize_types sample_pandas d = Inl e"
    unfolding finalize_types_def g and_then_Inr e and_then_Inl ..
  show ?thesis
    unfolding df_def[symmetric] clean_table_def c and_then_Inr dr by (simp add: fi)
qed

lemma astype_int_inf_age:
  "astype_int sample_pandas [FloatV 34, InfV True] = Inl IntCastingNaNError"
  by (simp add: astype_int_cell_def trunc_toward_zero_def)

lemma sample_inf_age_rows:
  "rows sample_inf_age
     = [(0, sample_row(''age'' \<mapsto> FloatV 34)), (1, sample_row(''age'' \<mapsto> InfV True))]"
  by (simp add: sample_inf_age_def sample_frame_def upt_rec)

text \<open>
  Claim C1, at a failing input. The table has two rows: the row of the example with age
  34.0, and the same row with an infinite age. The first row has a date that parses, the
  latitude 48.85, the longitude 2.35, an integral age and the time \<^verbatim>\<open>14:30\<close>, which
  parses. The second row is not dropped, since an infinity is not a missing value, so the
  cast of the whole column \<^verbatim>\<open>age\<close> raises and the run produces no table: the first
  row is in no output.
\<close>

theorem valid_row_lost:
  "rows sample_inf_age ! 0 = (0, sample_row(''age'' \<mapsto> FloatV 34))
   \<and> to_datetime sample_pandas sample_now (column_of ''date'' sample_inf_age)
       = Inr [DatetimeV 1619827200000000000, DatetimeV 1619827200000000000]
   \<and> to_numeric sample_pandas (column_of ''lat'' sample_inf_age) = Inr [FloatV 48.85, FloatV 48.85]
   \<and> to_numeric sample_pandas (column_of ''long'' sample_inf_age) = Inr [FloatV 2.35, FloatV 2.35]
   \<and> cell_at (snd (rows sample_inf_age ! 0)) ''age'' = FloatV 34
   \<and> to_datetime_HM_cell (cell_at (snd (rows sample_inf_age ! 0)) ''hrmn'') = Some (14, 30)
   \<and> clean_table sample_pandas sample_now sample_inf_age = Inl IntCastingNaNError"
proof -
  have c: "column_of ''date'' sample_inf_age = [StrV ''2021-05-01'', StrV ''2021-05-01'']"
    "column_of ''lat'' sample_inf_age = [FloatV 48.85, FloatV 48.85]"
    "column_of ''long'' sample_inf_age = [FloatV 2.35, FloatV 2.35]"
    by (simp_all add: column_of_def sample_inf_age_rows cell_at_def sample_row_cells)
  have d: "to_datetime sample_pandas sample_now (column_of ''date'' sample_inf_age)
       = Inr [DatetimeV 1619827200000000000, DatetimeV 1619827200000000000]"
    unfolding c by (simp add: sample_pandas_def sample_to_datetime_def sample_date_def)
  have la: "to_numeric sample_pandas (column_of ''lat'' sample_inf_age) = Inr [FloatV 48.85, FloatV 48.85]"
    unfolding c by (simp add: sample_pandas_def sample_to_numeric_def sample_number_def)
  have lo: "to_numeric sample_pandas (column_of ''long'' sample_inf_age) = Inr [FloatV 2.35, FloatV 2.35]"
    unfolding c by (simp add: sample_pandas_def sample_to_numeric_def sample_number_def)
  have r: "rows sample_inf_age ! 0 = (0, sample_row(''age'' \<mapsto> FloatV 34))"
    by (simp add: sample_inf_age_rows)
  have ag: "cell_at (snd (rows sample_inf_age ! 0)) ''age'' = FloatV 34"
    unfolding r by (simp add: cell_at_def)
  have hm: "to_datetime_HM_cell (cell_at (snd (rows sample_inf_age ! 0)) ''hrmn'') = Some (14, 30)"
    unfolding r by (simp add: cell_at_def sample_row_cells to_datetime_HM_cell_def strptime_sample)
  have ct: "clean_table sample_pandas sample_now sample_inf_age = Inl IntCastingNaNError"
    unfolding sample_inf_age_def by (rule sample_age_pair[OF _ _ astype_int_inf_age]) simp_all
  from r d la lo ag hm ct show ?thesis by blast
qed

lemma python_int_samples: "python_int ''34'' = Some 34" "python_int ''abc'' = None"
  by (simp_all add: python_int_def strip_def is_space_def unsigned_literal_def digit_of_def)

lemma astype_int_bad_age:
  "astype_int sample_pandas [StrV ''34'', StrV ''abc'']
     = Inl (ValueError (''invalid literal for int() with base 10: '' @ [CHR 0x27] @ ''abc'' @ [CHR 0x27]))"
  by (simp add: astype_int_cell_def python_int_samples)

text \<open>
  Claim C2, at a failing input. The column \<^verbatim>\<open>age\<close> is not coerced before the cast. On
  the table whose ages are the texts \<^verbatim>\<open>34\<close> and \<^verbatim>\<open>abc\<close>, with the other fields
  of the example, both rows survive the two drops and the cast of \<^verbatim>\<open>age\<close> raises
  ValueError, so the run produces no table.
\<close>

theorem age_cast_raises:
  "clean_table sample_pandas sample_now sample_bad_age
     = Inl (ValueError (''invalid literal for int() with base 10: '' @ [CHR 0x27] @ ''abc'' @ [CHR 0x27]))"
proof -
  define d where "d = converted sample_bad_age (map (sample_date sample_now) (column_of ''date'' sample_bad_age))
           (map sample_number (column_of ''lat'' sample_bad_age))
           (map sample_number (column_of ''long'' sample_bad_age))"
  have c: "convert_types sample_pandas sample_now sample_bad_age = Inr d"
    using sample_convert[OF sample_columns_keep] unfolding sample_bad_age_def d_def .
  have rs: "rows sample_bad_age
              = [(0, sample_row(''age'' \<mapsto> StrV ''34'')), (1, sample_row(''age'' \<mapsto> StrV ''abc''))]"
    by (simp add: sample_bad_age_def sample_frame_def upt_rec)
  have cols: "columns d = CLEANED_COLUMNS"
    by (simp add: d_def converted_def)
  have n: "length (rows d) = 2"
    by (simp add: d_def rs)
  have h: "hours_of sample_bad_age = [IntV 14, IntV 14]"
    by (simp add: hours_of_def column_of_def rs cell_at_def sample_row_cells to_datetime_HM_def
        to_datetime_HM_cell_def strptime_sample dt_hour_def)
  have s: "survives x" if "x \<in> set (rows d)" for x
  proof -
    from that obtain i where i: "i < 2" and x: "x = rows d ! i"
      unfolding in_set_conv_nth n by blast
    from i have "i = 0 \<or> i = 1" by auto
    then show ?thesis
      unfolding x d_def
      by (auto simp: rows_converted_nth rs h survives_converted_row column_of_def cell_at_def
          sample_row_cells sample_date_def sample_number_def ne_zero_def)
  qed
  then have f: "filter survives (rows d) = rows d"
    by (simp add: filter_id_conv)
  have dr: "drop_rows d = Inr (d, 0)"
    unfolding drop_rows_Inr_iff f using cols by (simp add: CLEANED_COLUMNS_def)
  have a: "column_of ''age'' d = [StrV ''34'', StrV ''abc'']"
  proof (rule nth_equalityI)
    show "length (column_of ''age'' d) = length [StrV ''34'', StrV ''abc'']"
      by (simp add: n)
  next
    fix i assume "i < length (column_of ''age'' d)"
    then have "i = 0 \<or> i = 1" using n by auto
    then show "column_of ''age'' d ! i = [StrV ''34'', StrV ''abc''] ! i"
      using n
      by (auto simp: column_of_nth d_def rows_converted_nth rs converted_row_simps cell_at_def)
  qed
  have g: "getitem ''age'' d = Inr [StrV ''34'', StrV ''abc'']"
    using cols a by (simp add: getitem_def CLEANED_COLUMNS_def)
  have fi: "finalize_types sample_pandas d
     = Inl (ValueError (''invalid literal for int() with base 10: '' @ [CHR 0x27] @ ''abc'' @ [CHR 0x27]))"
    unfolding finalize_types_def g and_then_Inr astype_int_bad_age and_then_Inl ..
  show ?thesis
    unfolding clean_table_def c and_then_Inr dr by (simp add: fi)
qed

end
